theory Spec2Isabelle
  imports Complex_Main
begin

text \<open>
  A model of LifeFlow's rule engine: the condition evaluator (\<open>getNestedValue\<close>,
  \<open>evaluateCondition\<close>, \<open>evaluateConditions\<close>), the action executor (\<open>executeAction\<close>
  with its four handlers, \<open>executeActions\<close>) and the event handling of the engine
  (\<open>buildContext\<close>, \<open>evaluateAndExecuteRule\<close>, \<open>handleEvent\<close>, \<open>testRule\<close>), followed
  by the properties proved of them.
\<close>

section \<open>JavaScript values\<close>

text \<open>
  The rule engine works on loosely typed data: event payloads, the \<open>value\<close> of a
  condition and the \<open>params\<close> of an action are \<open>unknown\<close> to the type checker and
  are inspected at run time with \<open>typeof\<close>, \<open>===\<close> and \<open>||\<close>. The model therefore
  carries run-time values.

  A number is an IEEE double as far as the code can tell doubles apart: it only compares
  numbers and tests them for truthiness. \<open>Finite q\<close> is the double denoting the rational
  \<open>q\<close> (both zeros denote \<open>0\<close>; the code never separates them). Not every rational is a
  double, so statements over all \<open>jsnum\<close> cover all doubles.
\<close>

datatype jsnum = NaN | NegInfinity | Finite rat | PosInfinity

text \<open>
  A thrown value, as far as the code looks at it: the code only applies \<open>String\<close> to
  what it catches. \<open>Thrown s\<close> is a value that \<open>String\<close> turns into the text \<open>s\<close>;
  \<open>Unconvertible e\<close> is a value that has no conversion to a string: \<open>String\<close> applied to
  it throws \<open>e\<close> (an object without \<open>toString\<close> and \<open>valueOf\<close>, such as
  \<open>Object.create(null)\<close>, makes \<open>String\<close> throw a \<open>TypeError\<close>; an object whose
  \<open>toString\<close> throws makes \<open>String\<close> throw that).
\<close>

datatype thrown = Thrown string | Unconvertible thrown

text \<open>
  Arrays, objects, functions and symbols have an identity (the natural number), which is
  what \<open>===\<close> compares. An array is the list of its elements. An object is the list of its
  own properties, each with what reading it gives: \<open>Inr v\<close> for a data property holding
  \<open>v\<close> (or an accessor that returns \<open>v\<close>), \<open>Inl e\<close> for an accessor that throws \<open>e\<close>.
  \<open>JArr\<close> and \<open>JObj\<close> are the ordinary arrays and objects, with the built-in prototypes.
  \<open>JExotic\<close> is every other object: a \<open>Proxy\<close>, a host object, an object with a
  prototype of its own, an array with accessor elements or with properties added to it.
  The runtime below says what a read of it gives, whether \<open>Array.isArray\<close> holds of it and
  what its \<open>includes\<close> answers. A character of a string stands for one UTF-16 code unit.
\<close>

datatype jsval =
    JUndefined
  | JNull
  | JBool bool
  | JNum jsnum
  | JBigInt int
  | JStr string
  | JSymbol nat
  | JFun nat
  | JArr nat "jsval list"
  | JObj nat "(string \<times> (thrown + jsval)) list"
  | JExotic nat

fun typeof :: "jsval \<Rightarrow> string" where
  "typeof JUndefined = ''undefined''"
| "typeof JNull = ''object''"
| "typeof (JBool b) = ''boolean''"
| "typeof (JNum n) = ''number''"
| "typeof (JBigInt i) = ''bigint''"
| "typeof (JStr s) = ''string''"
| "typeof (JSymbol r) = ''symbol''"
| "typeof (JFun r) = ''function''"
| "typeof (JArr r xs) = ''object''"
| "typeof (JObj r ps) = ''object''"
| "typeof (JExotic r) = ''object''"

text \<open>\<open>ToBoolean\<close>, as \<open>!x\<close> and \<open>x || y\<close> use it.\<close>

fun truthy :: "jsval \<Rightarrow> bool" where
  "truthy JUndefined = False"
| "truthy JNull = False"
| "truthy (JBool b) = b"
| "truthy (JNum n) = (n \<noteq> NaN \<and> n \<noteq> Finite 0)"
| "truthy (JBigInt i) = (i \<noteq> 0)"
| "truthy (JStr s) = (s \<noteq> [])"
| "truthy (JSymbol r) = True"
| "truthy (JFun r) = True"
| "truthy (JArr r xs) = True"
| "truthy (JObj r ps) = True"
| "truthy (JExotic r) = True"

definition js_or :: "jsval \<Rightarrow> jsval \<Rightarrow> jsval" where
  \<comment> \<open>\<open>a || b\<close>\<close>
  "js_or a b = (if truthy a then a else b)"

text \<open>Comparison of two numbers: every comparison with \<open>NaN\<close> is false.\<close>

fun num_lt :: "jsnum \<Rightarrow> jsnum \<Rightarrow> bool" where
  "num_lt NaN y = False"
| "num_lt x NaN = False"
| "num_lt NegInfinity y = (y \<noteq> NegInfinity)"
| "num_lt x NegInfinity = False"
| "num_lt PosInfinity y = False"
| "num_lt x PosInfinity = True"
| "num_lt (Finite a) (Finite b) = (a < b)"

definition num_eq :: "jsnum \<Rightarrow> jsnum \<Rightarrow> bool" where
  "num_eq x y = (x \<noteq> NaN \<and> x = y)"

definition num_le :: "jsnum \<Rightarrow> jsnum \<Rightarrow> bool" where
  "num_le x y = (num_lt x y \<or> num_eq x y)"

text \<open>
  The relational operators, on numbers. On other operands JavaScript converts first;
  the evaluator tests \<open>typeof\<close> before it compares, so the conversions are never
  reached and are not modelled: the functions answer \<open>False\<close> there.
\<close>

fun js_lt :: "jsval \<Rightarrow> jsval \<Rightarrow> bool" where
  "js_lt (JNum a) (JNum b) = num_lt a b"
| "js_lt a b = False"

fun js_le :: "jsval \<Rightarrow> jsval \<Rightarrow> bool" where
  "js_le (JNum a) (JNum b) = num_le a b"
| "js_le a b = False"

definition js_gt :: "jsval \<Rightarrow> jsval \<Rightarrow> bool" where
  "js_gt a b = js_lt b a"

definition js_ge :: "jsval \<Rightarrow> jsval \<Rightarrow> bool" where
  "js_ge a b = js_le b a"

text \<open>
  \<open>SameValueZero\<close>, the equality of \<open>Array.prototype.includes\<close>: primitives by value
  (\<open>NaN\<close> equal to itself), everything else by identity.
\<close>

definition same_value_zero :: "jsval \<Rightarrow> jsval \<Rightarrow> bool" where
  "same_value_zero a b =
     (case a of
        JUndefined \<Rightarrow> b = JUndefined
      | JNull \<Rightarrow> b = JNull
      | JBool x \<Rightarrow> b = JBool x
      | JNum x \<Rightarrow> b = JNum x
      | JBigInt x \<Rightarrow> b = JBigInt x
      | JStr x \<Rightarrow> b = JStr x
      | JSymbol r \<Rightarrow> b = JSymbol r
      | JFun r \<Rightarrow> b = JFun r
      | JArr r xs \<Rightarrow> (case b of JArr r' ys \<Rightarrow> r = r' | _ \<Rightarrow> False)
      | JObj r ps \<Rightarrow> (case b of JObj r' qs \<Rightarrow> r = r' | _ \<Rightarrow> False)
      | JExotic r \<Rightarrow> b = JExotic r)"

text \<open>Strict equality \<open>===\<close>: as above, but \<open>NaN\<close> differs from itself.\<close>

definition strict_eq :: "jsval \<Rightarrow> jsval \<Rightarrow> bool" where
  "strict_eq a b = (a \<noteq> JNum NaN \<and> same_value_zero a b)"

text \<open>\<open>String.prototype.includes\<close>: the search string occurs at some position.\<close>

fun string_includes :: "string \<Rightarrow> string \<Rightarrow> bool" where
  "string_includes [] t = (t = [])"
| "string_includes (c # s) t = (take (length t) (c # s) = t \<or> string_includes s t)"

definition array_includes :: "jsval list \<Rightarrow> jsval \<Rightarrow> bool" where
  \<comment> \<open>\<open>Array.prototype.includes\<close>\<close>
  "array_includes xs v = list_ex (\<lambda>x. same_value_zero x v) xs"

section \<open>Results and console output\<close>

fun String_of :: "thrown \<Rightarrow> thrown + string" where
  \<comment> \<open>\<open>String(error)\<close>: the text, or what the conversion throws\<close>
  "String_of (Thrown s) = Inr s"
| "String_of (Unconvertible e) = Inl e"

text \<open>
  \<open>ActionResult\<close>. The optional \<open>error\<close> and \<open>data\<close> are \<open>None\<close> when the
  property is not set; \<open>data\<close> is always an object literal and is kept as the list of
  its properties.
\<close>

record ActionResult =
  actionType :: string
  success :: bool
  error :: "string option"
  data :: "(string \<times> jsval) list option"

text \<open>
  The console calls of the three modules, one constructor for each call site, with the
  values it prints:
  \<^item> \<open>Log_message message payload\<close>: \<open>console.log('[RuleEngine]', message, _context.payload)\<close>;
  \<^item> \<open>Log_triggering_break duration isLongBreak\<close>: \<open>console.log('[RuleEngine] Triggering break:', ...)\<close>;
  \<^item> \<open>Warn_action_failed result\<close>: \<open>console.warn('[RuleEngine] Action failed, stopping execution:', result)\<close>;
  \<^item> \<open>Warn_unknown_operator operator\<close>: \<open>console.warn(`Unknown operator: ${operator}`)\<close>;
  \<^item> \<open>Log_rule_executed ruleName trigger actionsExecuted\<close>: the \<open>console.log\<close> that ends a
    matched rule's run;
  \<^item> \<open>Error_rule_evaluation error\<close>: the \<open>console.error\<close> of the rule's \<open>catch\<close>.
\<close>

datatype console_entry =
    Log_message jsval jsval
  | Log_triggering_break jsval jsval
  | Warn_action_failed ActionResult
  | Warn_unknown_operator string
  | Log_rule_executed string string bool
  | Error_rule_evaluation thrown

section \<open>Property access\<close>

text \<open>
  What the running engine supplies and the repository does not: the properties that
  plain objects and arrays inherit from their prototypes (data or accessor, as for own
  properties), the members of primitive values and functions, and for an exotic object
  \<^item> \<open>exoticGet r k\<close>: what reading its property \<open>k\<close> gives, or throws;
  \<^item> \<open>exoticIsArray r\<close>: whether \<open>Array.isArray\<close> holds of it (as it does of a \<open>Proxy\<close>
    over an array);
  \<^item> \<open>exoticIncludes r v\<close>: what the call \<open>actualValue.includes(v)\<close> gives, or throws, when
    \<open>Array.isArray\<close> holds of it. The call has the type \<open>boolean\<close> of \<open>Array\<close>'s
    \<open>includes\<close>.

  The evaluator follows paths taken from stored rules, so a path may name an inherited
  property; the model leaves these tables open.
\<close>

record runtime =
  objectProto :: "(string \<times> (thrown + jsval)) list"
  arrayProto :: "(string \<times> (thrown + jsval)) list"
  exoticGet :: "nat \<Rightarrow> string \<Rightarrow> thrown + jsval"
  exoticIsArray :: "nat \<Rightarrow> bool"
  exoticIncludes :: "nat \<Rightarrow> jsval \<Rightarrow> thrown + bool"
  primitiveMember :: "jsval \<Rightarrow> string \<Rightarrow> jsval"

text \<open>
  The read of a property along the prototype chain: the first table that has the key
  decides; a key found nowhere reads as \<open>undefined\<close>.
\<close>

fun lookup_chain ::
  "(string \<times> (thrown + jsval)) list list \<Rightarrow> string \<Rightarrow> thrown + jsval" where
  "lookup_chain [] k = Inr JUndefined"
| "lookup_chain (ps # rest) k =
     (case map_of ps k of Some p \<Rightarrow> p | None \<Rightarrow> lookup_chain rest k)"

text \<open>An array index is a canonical decimal numeral below \<open>2^32 - 1\<close>.\<close>

definition is_digit :: "char \<Rightarrow> bool" where
  "is_digit c = (48 \<le> (of_char c :: nat) \<and> (of_char c :: nat) \<le> 57)"

definition digits_val :: "string \<Rightarrow> nat" where
  "digits_val s = foldl (\<lambda>n c. 10 * n + ((of_char c :: nat) - 48)) 0 s"

definition array_index :: "string \<Rightarrow> nat option" where
  "array_index s =
     (if s \<noteq> [] \<and> list_all is_digit s \<and> (length s = 1 \<or> hd s \<noteq> CHR ''0'')
         \<and> digits_val s < 4294967295
      then Some (digits_val s) else None)"

text \<open>
  \<open>current[part]\<close>. Reading a property of \<open>undefined\<close> or \<open>null\<close> throws a
  \<open>TypeError\<close> (the text is V8's); reading an accessor property runs the accessor,
  which may throw; reading an exotic object runs its code.
\<close>

definition nullish_read :: "string \<Rightarrow> string \<Rightarrow> thrown" where
  "nullish_read what k =
     Thrown (''TypeError: Cannot read properties of '' @ what @ '' (reading '' @ [CHR 0x27] @ k
       @ [CHR 0x27] @ '')'')"

fun getProp :: "runtime \<Rightarrow> jsval \<Rightarrow> string \<Rightarrow> thrown + jsval" where
  "getProp rt JUndefined k = Inl (nullish_read ''undefined'' k)"
| "getProp rt JNull k = Inl (nullish_read ''null'' k)"
| "getProp rt (JObj r ps) k = lookup_chain [ps, objectProto rt] k"
| "getProp rt (JArr r xs) k =
     (case array_index k of
        Some i \<Rightarrow>
          if i < length xs then Inr (xs ! i)
          else lookup_chain [arrayProto rt, objectProto rt] k
      | None \<Rightarrow>
          if k = ''length'' then Inr (JNum (Finite (of_nat (length xs))))
          else lookup_chain [arrayProto rt, objectProto rt] k)"
| "getProp rt (JExotic r) k = exoticGet rt r k"
| "getProp rt v k = Inr (primitiveMember rt v k)"

section \<open>Condition evaluator\<close>

record RuleCondition =
  field :: string
  operator :: string
  expectedValue :: jsval

text \<open>
  \<open>RuleContext\<close>: the event payload and four accessor closures. The evaluator and the
  executor never call the closures; they are visible only as function-valued
  properties of the context object, so the model keeps their identities.
\<close>

record RuleContext =
  payload :: jsval
  context_ref :: nat
  getActivityById :: nat
  getHabitById :: nat
  getCurrentTime :: nat
  getTodayKey :: nat

definition context_object :: "RuleContext \<Rightarrow> jsval" where
  "context_object context =
     JObj (context_ref context)
       [(''payload'', Inr (payload context)),
        (''getActivityById'', Inr (JFun (getActivityById context))),
        (''getHabitById'', Inr (JFun (getHabitById context))),
        (''getCurrentTime'', Inr (JFun (getCurrentTime context))),
        (''getTodayKey'', Inr (JFun (getTodayKey context)))]"

text \<open>\<open>path.split('.')\<close>: never empty; the empty path splits into one empty segment.\<close>

fun split_dot :: "string \<Rightarrow> string list" where
  "split_dot [] = [[]]"
| "split_dot (c # cs) =
     (if c = CHR ''.'' then [] # split_dot cs
      else (case split_dot cs of [] \<Rightarrow> [[c]] | p # ps \<Rightarrow> (c # p) # ps))"

text \<open>The loop of \<open>getNestedValue\<close> over the remaining segments.\<close>

fun getNestedValue_loop :: "runtime \<Rightarrow> jsval \<Rightarrow> string list \<Rightarrow> thrown + jsval" where
  "getNestedValue_loop rt current [] = Inr current"
| "getNestedValue_loop rt current (part # parts) =
     (if current = JNull \<or> current = JUndefined then Inr JUndefined
      else if typeof current = ''object'' then
        (case getProp rt current part of
           Inl e \<Rightarrow> Inl e
         | Inr v \<Rightarrow> getNestedValue_loop rt v parts)
      else Inr JUndefined)"

definition getNestedValue :: "runtime \<Rightarrow> jsval \<Rightarrow> string \<Rightarrow> thrown + jsval" where
  "getNestedValue rt obj path = getNestedValue_loop rt obj (split_dot path)"

text \<open>
  The synthetic root \<open>{ payload: context.payload, context }\<close>. It is a fresh object;
  its identity is never observed, since the walk leaves the root at the first segment
  and no value refers back to it.
\<close>

definition root_ref :: nat where
  "root_ref = 0"

definition root_object :: "RuleContext \<Rightarrow> jsval" where
  "root_object context =
     JObj root_ref
       [(''payload'', Inr (payload context)), (''context'', Inr (context_object context))]"

text \<open>
  The \<open>contains\<close> case of the \<open>switch\<close>. \<open>Array.isArray\<close> does not hold of a string, so
  a string tested against a non-string falls through to \<open>false\<close>. The \<open>includes\<close> of an
  ordinary array does not throw; that of an exotic array is the runtime's.
\<close>

definition contains_case :: "runtime \<Rightarrow> jsval \<Rightarrow> jsval \<Rightarrow> thrown + bool" where
  "contains_case rt actualValue expected =
     (case actualValue of
        JStr s \<Rightarrow> (case expected of JStr t \<Rightarrow> Inr (string_includes s t) | _ \<Rightarrow> Inr False)
      | JArr r xs \<Rightarrow> Inr (array_includes xs expected)
      | JExotic r \<Rightarrow> if exoticIsArray rt r then exoticIncludes rt r expected else Inr False
      | _ \<Rightarrow> Inr False)"

text \<open>
  The \<open>switch (operator)\<close> of \<open>evaluateCondition\<close>: the value returned (or what was thrown)
  and the console output.
\<close>

definition operator_switch ::
  "runtime \<Rightarrow> string \<Rightarrow> jsval \<Rightarrow> jsval \<Rightarrow> (thrown + bool) \<times> console_entry list" where
  "operator_switch rt op actualValue expected =
     (if op = ''eq'' then (Inr (strict_eq actualValue expected), [])
      else if op = ''neq'' then (Inr (\<not> strict_eq actualValue expected), [])
      else if op = ''gt'' then
        (Inr (typeof actualValue = ''number'' \<and> typeof expected = ''number''
                \<and> js_gt actualValue expected), [])
      else if op = ''gte'' then
        (Inr (typeof actualValue = ''number'' \<and> typeof expected = ''number''
                \<and> js_ge actualValue expected), [])
      else if op = ''lt'' then
        (Inr (typeof actualValue = ''number'' \<and> typeof expected = ''number''
                \<and> js_lt actualValue expected), [])
      else if op = ''lte'' then
        (Inr (typeof actualValue = ''number'' \<and> typeof expected = ''number''
                \<and> js_le actualValue expected), [])
      else if op = ''contains'' then (contains_case rt actualValue expected, [])
      else (Inr False, [Warn_unknown_operator op]))"

text \<open>
  \<open>evaluateCondition\<close>: the boolean returned (or what was thrown) and the console output.
\<close>

definition evaluateCondition ::
  "runtime \<Rightarrow> RuleCondition \<Rightarrow> RuleContext \<Rightarrow> (thrown + bool) \<times> console_entry list" where
  "evaluateCondition rt condition context =
     (case getNestedValue rt (root_object context) (field condition) of
        Inl e \<Rightarrow> (Inl e, [])
      | Inr actualValue \<Rightarrow>
          operator_switch rt (operator condition) actualValue (expectedValue condition))"

text \<open>\<open>conditions.every(...)\<close>: stops at the first condition that is false.\<close>

fun every_condition ::
  "runtime \<Rightarrow> RuleCondition list \<Rightarrow> RuleContext \<Rightarrow> (thrown + bool) \<times> console_entry list" where
  "every_condition rt [] context = (Inr True, [])"
| "every_condition rt (c # cs) context =
     (case evaluateCondition rt c context of
        (Inl e, out) \<Rightarrow> (Inl e, out)
      | (Inr b, out) \<Rightarrow>
          if b then (case every_condition rt cs context of (r, out') \<Rightarrow> (r, out @ out'))
          else (Inr False, out))"

definition evaluateConditions ::
  "runtime \<Rightarrow> RuleCondition list \<Rightarrow> RuleContext \<Rightarrow> (thrown + bool) \<times> console_entry list" where
  "evaluateConditions rt conditions context =
     (if length conditions = 0 then (Inr True, [])
      else every_condition rt conditions context)"

section \<open>Action executor\<close>

text \<open>
  The executor acts on the outside world through collaborators that are not part of the
  repository: the browser's Notification interface and the timer store. The world is the
  sequence of events so far (calls to collaborators and console output, in order) and
  the next unused object identity. A collaborator answers as a function of the events so
  far; it may throw. The model appends every call it makes to the events, so that "was
  never invoked" can be read off the world.
\<close>

datatype call =
    New_Notification jsval jsval string
  | Request_permission
  | Import_timerStore
  | Start_timer jsval string

datatype event = Call call | Console console_entry

record world =
  events :: "event list"
  next_ref :: nat

definition emit :: "event \<Rightarrow> world \<Rightarrow> world" where
  "emit ev w = w\<lparr>events := events w @ [ev]\<rparr>"

text \<open>
  \<^item> \<open>notification_in_window\<close>: \<open>'Notification' in window\<close> (throws where there is no
    \<open>window\<close>);
  \<^item> \<open>notification_permission\<close>: \<open>Notification.permission\<close>;
  \<^item> \<open>new_Notification title body\<close>: the constructor call, \<open>Some e\<close> when it throws;
  \<^item> \<open>requestPermission\<close>: the awaited \<open>Notification.requestPermission()\<close>;
  \<^item> \<open>import_timerStore\<close>: the awaited dynamic import, \<open>Some e\<close> when it fails;
  \<^item> \<open>startTimer activityId mode\<close>: the awaited
    \<open>useTimerStore.getState().startTimer(activityId, 'normal')\<close>.
\<close>

record platform =
  notification_in_window :: "event list \<Rightarrow> thrown + bool"
  notification_permission :: "event list \<Rightarrow> string"
  new_Notification :: "jsval \<Rightarrow> jsval \<Rightarrow> event list \<Rightarrow> thrown option"
  requestPermission :: "event list \<Rightarrow> thrown + string"
  import_timerStore :: "event list \<Rightarrow> thrown option"
  startTimer :: "jsval \<Rightarrow> string \<Rightarrow> event list \<Rightarrow> thrown + jsval"

text \<open>
  \<open>RuleActionConfig\<close>; \<open>params\<close> is a \<open>Record<string, unknown>\<close>, kept as the list of
  its properties. The configs are read from the rule store, which holds data properties
  only. \<open>params.key\<close> is \<open>undefined\<close> for a key that is not there (none of the keys the
  executor reads is a property of \<open>Object.prototype\<close>).
\<close>

record RuleActionConfig =
  type :: string
  params :: "(string \<times> jsval) list"

definition param :: "(string \<times> jsval) list \<Rightarrow> string \<Rightarrow> jsval" where
  "param ps k = (case map_of ps k of Some v \<Rightarrow> v | None \<Rightarrow> JUndefined)"

definition failed :: "string \<Rightarrow> string \<Rightarrow> ActionResult" where
  \<comment> \<open>\<open>{ actionType, success: false, error }\<close>\<close>
  "failed t msg = \<lparr>actionType = t, success = False, error = Some msg, data = None\<rparr>"

text \<open>
  The \<open>catch\<close> block of a handler, \<open>return { actionType, success: false, error: String(error) }\<close>:
  when \<open>String(error)\<close> throws, the handler throws.
\<close>

definition caught :: "string \<Rightarrow> thrown \<Rightarrow> world \<Rightarrow> (thrown + ActionResult) \<times> world" where
  "caught t e w =
     (case String_of e of Inl e' \<Rightarrow> (Inl e', w) | Inr msg \<Rightarrow> (Inr (failed t msg), w))"

definition show_notification ::
  "platform \<Rightarrow> jsval \<Rightarrow> jsval \<Rightarrow> world \<Rightarrow> (thrown + ActionResult) \<times> world" where
  \<comment> \<open>\<open>new Notification(title, { body, icon: '/icons/icon-192.png' })\<close> and the return after it,
      inside the \<open>try\<close>\<close>
  "show_notification pf title body w =
     (let w1 = emit (Call (New_Notification title body ''/icons/icon-192.png'')) w in
      case new_Notification pf title body (events w) of
        Some e \<Rightarrow> caught ''NOTIFY'' e w1
      | None \<Rightarrow>
          (Inr \<lparr>actionType = ''NOTIFY'', success = True, error = None, data = None\<rparr>, w1))"

definition executeNotify ::
  "platform \<Rightarrow> (string \<times> jsval) list \<Rightarrow> RuleContext \<Rightarrow> world
   \<Rightarrow> (thrown + ActionResult) \<times> world" where
  "executeNotify pf ps context w =
     (let title = js_or (param ps ''title'') (JStr ''LifeFlow Bildirimi'');
          body = js_or (param ps ''body'') (JStr []) in
      case notification_in_window pf (events w) of
        Inl e \<Rightarrow> caught ''NOTIFY'' e w
      | Inr present \<Rightarrow>
          if present then
            if notification_permission pf (events w) = ''granted'' then
              show_notification pf title body w
            else if notification_permission pf (events w) \<noteq> ''denied'' then
              (let w1 = emit (Call Request_permission) w in
               case requestPermission pf (events w) of
                 Inl e \<Rightarrow> caught ''NOTIFY'' e w1
               | Inr permission \<Rightarrow>
                   if permission = ''granted'' then show_notification pf title body w1
                   else (Inr (failed ''NOTIFY'' ''Bildirim izni verilmedi''), w1))
            else (Inr (failed ''NOTIFY'' ''Bildirim izni verilmedi''), w)
          else (Inr (failed ''NOTIFY'' ''Bildirim izni verilmedi''), w))"

definition executeLogMessage ::
  "(string \<times> jsval) list \<Rightarrow> RuleContext \<Rightarrow> world \<Rightarrow> (thrown + ActionResult) \<times> world" where
  "executeLogMessage ps context w =
     (let message = param ps ''message'' in
      (Inr \<lparr>actionType = ''LOG_MESSAGE'', success = True, error = None,
            data = Some [(''message'', message)]\<rparr>,
       emit (Console (Log_message message (payload context))) w))"

definition executeStartTimer ::
  "platform \<Rightarrow> (string \<times> jsval) list \<Rightarrow> RuleContext \<Rightarrow> world
   \<Rightarrow> (thrown + ActionResult) \<times> world" where
  "executeStartTimer pf ps context w =
     (let activityId = param ps ''activityId'' in
      if \<not> truthy activityId then (Inr (failed ''START_TIMER'' ''activityId gerekli''), w)
      else
        (let w1 = emit (Call Import_timerStore) w in
         case import_timerStore pf (events w) of
           Some e \<Rightarrow> caught ''START_TIMER'' e w1
         | None \<Rightarrow>
             (let w2 = emit (Call (Start_timer activityId ''normal'')) w1 in
              case startTimer pf activityId ''normal'' (events w1) of
                Inl e \<Rightarrow> caught ''START_TIMER'' e w2
              | Inr timerId \<Rightarrow>
                  (Inr \<lparr>actionType = ''START_TIMER'', success = True, error = None,
                        data = Some [(''timerId'', timerId)]\<rparr>, w2))))"

definition executeTriggerBreak ::
  "(string \<times> jsval) list \<Rightarrow> RuleContext \<Rightarrow> world \<Rightarrow> (thrown + ActionResult) \<times> world" where
  "executeTriggerBreak ps context w =
     (let duration = js_or (param ps ''duration'') (JNum (Finite (5 * 60)));
          isLongBreak = js_or (param ps ''isLongBreak'') (JBool False) in
      (Inr \<lparr>actionType = ''TRIGGER_BREAK'', success = True, error = None,
            data = Some [(''duration'', duration), (''isLongBreak'', isLongBreak)]\<rparr>,
       emit (Console (Log_triggering_break duration isLongBreak)) w))"

definition executeAction ::
  "platform \<Rightarrow> RuleActionConfig \<Rightarrow> RuleContext \<Rightarrow> world \<Rightarrow> (thrown + ActionResult) \<times> world" where
  "executeAction pf action context w =
     (if type action = ''NOTIFY'' then executeNotify pf (params action) context w
      else if type action = ''LOG_MESSAGE'' then executeLogMessage (params action) context w
      else if type action = ''START_TIMER'' then executeStartTimer pf (params action) context w
      else if type action = ''TRIGGER_BREAK'' then executeTriggerBreak (params action) context w
      else
        (Inr (failed (type action)
                (''Bilinmeyen aksiyon t'' @ [CHR 0xFC] @ ''r'' @ [CHR 0xFC] @ '': ''
                   @ type action)),
         w))"

text \<open>
  The \<open>for\<close> loop of \<open>executeActions\<close>, with the \<open>results\<close> array as accumulator. An
  awaited \<open>executeAction\<close> that throws ends the loop and \<open>executeActions\<close> throws.
\<close>

fun executeActions_loop ::
  "platform \<Rightarrow> RuleActionConfig list \<Rightarrow> RuleContext \<Rightarrow> ActionResult list \<Rightarrow> world
   \<Rightarrow> (thrown + ActionResult list) \<times> world" where
  "executeActions_loop pf [] context results w = (Inr results, w)"
| "executeActions_loop pf (action # rest) context results w =
     (case executeAction pf action context w of
        (Inl e, w1) \<Rightarrow> (Inl e, w1)
      | (Inr result, w1) \<Rightarrow>
          if \<not> success result
          then (Inr (results @ [result]), emit (Console (Warn_action_failed result)) w1)
          else executeActions_loop pf rest context (results @ [result]) w1)"

definition executeActions ::
  "platform \<Rightarrow> RuleActionConfig list \<Rightarrow> RuleContext \<Rightarrow> world
   \<Rightarrow> (thrown + ActionResult list) \<times> world" where
  "executeActions pf acts context w = executeActions_loop pf acts context [] w"

text \<open>
  The world after the actions of a list have been executed one after the other, each in
  the world the one before it has left.
\<close>

definition world_after ::
  "platform \<Rightarrow> RuleActionConfig list \<Rightarrow> RuleContext \<Rightarrow> world \<Rightarrow> world" where
  "world_after pf acts context w = foldl (\<lambda>v a. snd (executeAction pf a context v)) w acts"

section \<open>Rule engine\<close>

record Rule =
  rule_id :: string
  rule_name :: string
  trigger :: string
  conditions :: "RuleCondition list"
  actions :: "RuleActionConfig list"
  enabled :: bool
  createdAt :: int
  updatedAt :: int

record EvaluatedRule =
  ruleId :: string
  ruleName :: string
  rule_trigger :: string
  matched :: bool
  actionsExecuted :: bool
  rule_error :: "string option"

text \<open>The engine's fields that event handling reads.\<close>

record RuleEngine =
  isRunning :: bool
  rulesCache :: "Rule list"
  rolloverHour :: int

text \<open>
  \<open>buildContext\<close> makes a fresh context object with four fresh closures.
\<close>

definition buildContext :: "RuleEngine \<Rightarrow> jsval \<Rightarrow> world \<Rightarrow> RuleContext \<times> world" where
  "buildContext this pl w =
     (\<lparr>payload = pl,
       context_ref = next_ref w,
       getActivityById = next_ref w + 1,
       getHabitById = next_ref w + 2,
       getCurrentTime = next_ref w + 3,
       getTodayKey = next_ref w + 4\<rparr>,
      w\<lparr>next_ref := next_ref w + 5\<rparr>)"

text \<open>
  \<open>evaluateConditions\<close> as the engine calls it: its console output goes to the world.
\<close>

definition console_output :: "console_entry list \<Rightarrow> world \<Rightarrow> world" where
  "console_output out w = w\<lparr>events := events w @ map Console out\<rparr>"

text \<open>
  The body of the \<open>try\<close> block. It updates \<open>result\<close> in place, so the updates made
  before a throw are kept: the function returns the record as it stands, with
  \<open>Some e\<close> when the body was left by a throw.
\<close>

definition rule_try_block ::
  "runtime \<Rightarrow> platform \<Rightarrow> Rule \<Rightarrow> RuleContext \<Rightarrow> EvaluatedRule \<Rightarrow> world
   \<Rightarrow> thrown option \<times> EvaluatedRule \<times> world" where
  "rule_try_block rt pf rule context result w =
     (case evaluateConditions rt (conditions rule) context of
        (Inl e, out) \<Rightarrow> (Some e, result, console_output out w)
      | (Inr conditionsMatch, out) \<Rightarrow>
          (let w1 = console_output out w;
               result1 = result\<lparr>matched := conditionsMatch\<rparr> in
           if conditionsMatch then
             (case executeActions pf (actions rule) context w1 of
                (Inl e, w2) \<Rightarrow> (Some e, result1, w2)
              | (Inr actionResults, w2) \<Rightarrow>
                  (let result2 = result1\<lparr>actionsExecuted := list_all success actionResults\<rparr>;
                       result3 =
                         (if \<not> actionsExecuted result2 then
                            (case find (\<lambda>r. \<not> success r) actionResults of
                               Some failedAction \<Rightarrow>
                                 (case error failedAction of
                                    Some msg \<Rightarrow>
                                      if msg \<noteq> [] then result2\<lparr>rule_error := Some msg\<rparr>
                                      else result2
                                  | None \<Rightarrow> result2)
                             | None \<Rightarrow> result2)
                          else result2)
                   in (None, result3,
                       emit (Console (Log_rule_executed (rule_name rule) (trigger rule)
                                        (actionsExecuted result3))) w2)))
           else (None, result1, w1)))"

definition initial_result :: "Rule \<Rightarrow> EvaluatedRule" where
  \<comment> \<open>the \<open>result\<close> object as \<open>evaluateAndExecuteRule\<close> creates it, \<open>error\<close> not set\<close>
  "initial_result rule =
     \<lparr>ruleId = rule_id rule, ruleName = rule_name rule, rule_trigger = trigger rule,
      matched = False, actionsExecuted = False, rule_error = None\<rparr>"

text \<open>
  \<open>evaluateAndExecuteRule\<close>: the \<open>try\<close> block, then the \<open>catch\<close> block
  \<open>result.error = String(error); console.error(..., error)\<close>. When \<open>String(error)\<close>
  throws, the \<open>catch\<close> block is left by that throw and the method throws.
\<close>

definition evaluateAndExecuteRule ::
  "runtime \<Rightarrow> platform \<Rightarrow> Rule \<Rightarrow> RuleContext \<Rightarrow> world \<Rightarrow> (thrown + EvaluatedRule) \<times> world" where
  "evaluateAndExecuteRule rt pf rule context w =
     (case rule_try_block rt pf rule context (initial_result rule) w of
        (Some e, result, w') \<Rightarrow>
          (case String_of e of
             Inl e' \<Rightarrow> (Inl e', w')
           | Inr msg \<Rightarrow>
               (Inr (result\<lparr>rule_error := Some msg\<rparr>),
                emit (Console (Error_rule_evaluation e)) w'))
      | (None, result, w') \<Rightarrow> (Inr result, w'))"

text \<open>
  The \<open>for\<close> loop of \<open>handleEvent\<close>: an awaited \<open>evaluateAndExecuteRule\<close> that throws
  ends the loop and \<open>handleEvent\<close> throws.
\<close>

fun handleEvent_loop ::
  "runtime \<Rightarrow> platform \<Rightarrow> Rule list \<Rightarrow> RuleContext \<Rightarrow> EvaluatedRule list \<Rightarrow> world
   \<Rightarrow> (thrown + EvaluatedRule list) \<times> world" where
  "handleEvent_loop rt pf [] context results w = (Inr results, w)"
| "handleEvent_loop rt pf (rule # rest) context results w =
     (case evaluateAndExecuteRule rt pf rule context w of
        (Inl e, w1) \<Rightarrow> (Inl e, w1)
      | (Inr result, w1) \<Rightarrow> handleEvent_loop rt pf rest context (results @ [result]) w1)"

definition handleEvent ::
  "runtime \<Rightarrow> platform \<Rightarrow> RuleEngine \<Rightarrow> string \<Rightarrow> jsval \<Rightarrow> world
   \<Rightarrow> (thrown + EvaluatedRule list) \<times> world" where
  "handleEvent rt pf this eventType pl w =
     (let matchingRules = filter (\<lambda>rule. trigger rule = eventType) (rulesCache this) in
      if length matchingRules = 0 then (Inr [], w)
      else
        (case buildContext this pl w of
           (context, w1) \<Rightarrow> handleEvent_loop rt pf matchingRules context [] w1))"

definition testRule ::
  "runtime \<Rightarrow> platform \<Rightarrow> RuleEngine \<Rightarrow> Rule \<Rightarrow> jsval \<Rightarrow> world
   \<Rightarrow> (thrown + EvaluatedRule) \<times> world" where
  "testRule rt pf this rule mockPayload w =
     (case buildContext this mockPayload w of
        (context, w1) \<Rightarrow> evaluateAndExecuteRule rt pf rule context w1)"

section \<open>Structural equality, data-only values and example inputs\<close>



text \<open>
  A value is data only when it is a primitive, a function, or an ordinary array or object
  all of whose elements and own properties read as such values: no accessor property
  that throws and no exotic object anywhere in it. A prototype table is data only in the
  same sense.
\<close>

definition reads_data :: "string \<times> (thrown + bool) \<Rightarrow> bool" where
  "reads_data kp = (case snd kp of Inl e \<Rightarrow> False | Inr b \<Rightarrow> b)"

primrec data_only :: "jsval \<Rightarrow> bool" where
  "data_only JUndefined = True"
| "data_only JNull = True"
| "data_only (JBool b) = True"
| "data_only (JNum n) = True"
| "data_only (JBigInt i) = True"
| "data_only (JStr s) = True"
| "data_only (JSymbol r) = True"
| "data_only (JFun r) = True"
| "data_only (JArr r xs) = list_all id (map data_only xs)"
| "data_only (JObj r ps) = list_all reads_data (map (map_prod id (map_sum id data_only)) ps)"
| "data_only (JExotic r) = False"

definition table_data_only :: "(string \<times> (thrown + jsval)) list \<Rightarrow> bool" where
  "table_data_only ps = list_all reads_data (map (map_prod id (map_sum id data_only)) ps)"

definition runtime_data_only :: "runtime \<Rightarrow> bool" where
  "runtime_data_only rt = (table_data_only (objectProto rt) \<and> table_data_only (arrayProto rt))"

text \<open>
  A runtime and a context for the examples below. The payloads are those of the
  repository's evaluator tests. The exotic object 30 is a \<open>Proxy\<close> over an array whose
  \<open>get\<close> trap throws, so that reading a property of it throws and so does calling its
  \<open>includes\<close>.
\<close>

definition example_runtime :: runtime where
  "example_runtime =
     \<lparr>objectProto = [(''constructor'', Inr (JFun 1)), (''toString'', Inr (JFun 2))],
      arrayProto = [(''includes'', Inr (JFun 3))],
      exoticGet = (\<lambda>r k. if r = 30 then Inl (Thrown ''Error: trap failed'') else Inr JUndefined),
      exoticIsArray = (\<lambda>r. r = 30),
      exoticIncludes = (\<lambda>r v. Inl (Thrown ''Error: trap failed'')),
      primitiveMember = (\<lambda>v k. JUndefined)\<rparr>"

definition example_context :: "jsval \<Rightarrow> RuleContext" where
  "example_context pl =
     \<lparr>payload = pl, context_ref = 10, getActivityById = 11, getHabitById = 12,
      getCurrentTime = 13, getTodayKey = 14\<rparr>"

text \<open>
  A platform on which every collaborator succeeds, one whose timer store rejects with the
  empty string, and one on which notifications are not yet permitted and the permission
  is granted to the first request only.
\<close>

definition example_platform :: platform where
  "example_platform =
     \<lparr>notification_in_window = (\<lambda>h. Inr True),
      notification_permission = (\<lambda>h. ''granted''),
      new_Notification = (\<lambda>title body h. None),
      requestPermission = (\<lambda>h. Inr ''granted''),
      import_timerStore = (\<lambda>h. None),
      startTimer = (\<lambda>activityId mode h. Inr (JStr ''timer-1''))\<rparr>"

definition example_world :: world where
  "example_world = \<lparr>events = [], next_ref = 100\<rparr>"

definition empty_rejection_platform :: platform where
  "empty_rejection_platform =
     example_platform\<lparr>startTimer := (\<lambda>activityId mode h. Inl (Thrown []))\<rparr>"

definition one_grant_platform :: platform where
  "one_grant_platform =
     example_platform
       \<lparr>notification_permission := (\<lambda>h. ''default''),
        requestPermission :=
          (\<lambda>h. if Call Request_permission \<in> set h then Inr ''denied'' else Inr ''granted'')\<rparr>"

text \<open>
  Two rules with the same trigger, the first with a failing first action, and a rule
  with another trigger and no actions.
\<close>

definition notify_action :: RuleActionConfig where
  "notify_action = \<lparr>type = ''NOTIFY'', params = []\<rparr>"

definition log_action :: "string \<Rightarrow> RuleActionConfig" where
  "log_action msg = \<lparr>type = ''LOG_MESSAGE'', params = [(''message'', JStr msg)]\<rparr>"

definition timer_action_without_id :: RuleActionConfig where
  "timer_action_without_id = \<lparr>type = ''START_TIMER'', params = []\<rparr>"

definition failing_rule :: Rule where
  "failing_rule =
     \<lparr>rule_id = ''r1'', rule_name = ''first'', trigger = ''POMODORO_COMPLETED'', conditions = [],
      actions = [timer_action_without_id, log_action ''never''], enabled = True,
      createdAt = 0, updatedAt = 0\<rparr>"

definition succeeding_rule :: Rule where
  "succeeding_rule =
     \<lparr>rule_id = ''r2'', rule_name = ''second'', trigger = ''POMODORO_COMPLETED'', conditions = [],
      actions = [log_action ''done''], enabled = True, createdAt = 0, updatedAt = 0\<rparr>"

definition idle_rule :: Rule where
  "idle_rule =
     \<lparr>rule_id = ''r3'', rule_name = ''third'', trigger = ''GOAL_REACHED'', conditions = [],
      actions = [], enabled = True, createdAt = 0, updatedAt = 0\<rparr>"

definition example_engine :: RuleEngine where
  "example_engine =
     \<lparr>isRunning = True, rulesCache = [failing_rule, idle_rule, succeeding_rule], rolloverHour = 4\<rparr>"

text \<open>
  A thrown value without primitive conversion (an object created without prototype), a
  payload whose property \<open>x\<close> is a getter that throws it, and a rule that reads that
  property, cached before a rule with the same trigger.
\<close>

definition unconvertible_value :: thrown where
  "unconvertible_value =
     Unconvertible (Thrown ''TypeError: Cannot convert object to primitive value'')"

definition hostile_payload :: jsval where
  "hostile_payload = JObj 20 [(''x'', Inl unconvertible_value)]"

definition watching_rule :: Rule where
  "watching_rule =
     \<lparr>rule_id = ''r4'', rule_name = ''watch'', trigger = ''POMODORO_COMPLETED'',
      conditions = [\<lparr>field = ''payload.x'', operator = ''eq'', expectedValue = JNum (Finite 1)\<rparr>],
      actions = [log_action ''seen''], enabled = True, createdAt = 0, updatedAt = 0\<rparr>"

definition watching_engine :: RuleEngine where
  "watching_engine =
     \<lparr>isRunning = True, rulesCache = [watching_rule, succeeding_rule], rolloverHour = 4\<rparr>"

section \<open>Unfolding rules\<close>

lemmas example_defs =
  example_platform_def example_world_def example_context_def example_runtime_def
  log_action_def timer_action_without_id_def notify_action_def failing_rule_def
  succeeding_rule_def idle_rule_def example_engine_def

lemmas executor_defs =
  executeActions_def executeAction_def executeLogMessage_def executeStartTimer_def
  executeNotify_def executeTriggerBreak_def show_notification_def caught_def param_def
  failed_def emit_def js_or_def Let_def

lemmas engine_defs =
  evaluateAndExecuteRule_def rule_try_block_def initial_result_def console_output_def
  evaluateConditions_def handleEvent_def testRule_def buildContext_def

section \<open>Path resolution\<close>

lemma split_dot_nonempty: "split_dot s \<noteq> []"
  by (induction s) (auto split: list.splits)

lemma split_dot_append: "split_dot (p @ CHR ''.'' # q) = split_dot p @ split_dot q"
  by (induction p) (auto simp: split_dot_nonempty split: list.splits)

text \<open>
  Reading a property of a data-only value under data-only prototypes returns a data-only
  value, so that resolving a path through such a payload throws nothing.
\<close>

lemma table_lookup:
  "table_data_only ps \<Longrightarrow> map_of ps k = Some p \<Longrightarrow> \<exists>v. p = Inr v \<and> data_only v"
proof (induction ps)
  case Nil
  then show ?case by simp
next
  case (Cons kp ps)
  obtain k' p' where kp: "kp = (k', p')" by (cases kp)
  show ?case
  proof (cases "k' = k")
    case True
    with Cons.prems kp show ?thesis
      by (cases p') (auto simp: table_data_only_def reads_data_def)
  next
    case False
    with Cons kp show ?thesis by (auto simp: table_data_only_def)
  qed
qed

lemma lookup_chain_data:
  "list_all table_data_only tables \<Longrightarrow> \<exists>v. lookup_chain tables k = Inr v \<and> data_only v"
proof (induction tables)
  case Nil
  show ?case by simp
next
  case (Cons ps rest)
  show ?case
  proof (cases "map_of ps k")
    case None
    with Cons show ?thesis by simp
  next
    case (Some p)
    with Cons.prems table_lookup [of ps k p] show ?thesis by auto
  qed
qed

lemma getProp_data:
  assumes "data_only v" and "runtime_data_only rt" and "typeof v = ''object''" and "v \<noteq> JNull"
  shows "\<exists>x. getProp rt v k = Inr x \<and> data_only x"
proof (cases v)
  case (JObj r ps)
  with assms have "list_all table_data_only [ps, objectProto rt]"
    by (simp add: table_data_only_def runtime_data_only_def)
  from lookup_chain_data [OF this] JObj show ?thesis by simp
next
  case (JArr r xs)
  have t: "list_all table_data_only [arrayProto rt, objectProto rt]"
    using assms(2) by (simp add: runtime_data_only_def)
  have el: "i < length xs \<Longrightarrow> data_only (xs ! i)" for i
    using assms(1) JArr by (simp add: list_all_length)
  show ?thesis
    using JArr lookup_chain_data [OF t, of k] el
    by (auto split: option.splits)
qed (use assms in auto)

lemma getNestedValue_loop_data:
  "data_only current \<Longrightarrow> runtime_data_only rt \<Longrightarrow>
   \<exists>v. getNestedValue_loop rt current parts = Inr v \<and> data_only v"
proof (induction parts arbitrary: current)
  case Nil
  then show ?case by simp
next
  case (Cons part parts)
  show ?case
  proof (cases "current = JNull \<or> current = JUndefined \<or> typeof current \<noteq> ''object''")
    case True
    then show ?thesis by auto
  next
    case False
    then obtain x where x: "getProp rt current part = Inr x" and d: "data_only x"
      using getProp_data [OF Cons.prems(1) Cons.prems(2)] by blast
    from Cons.IH [OF d Cons.prems(2)] x False show ?thesis by auto
  qed
qed

lemma root_data_only: "data_only (payload context) \<Longrightarrow> data_only (root_object context)"
  by (simp add: root_object_def context_object_def reads_data_def)

lemma getNestedValue_data:
  "data_only (payload context) \<Longrightarrow> runtime_data_only rt \<Longrightarrow>
   \<exists>v. getNestedValue rt (root_object context) path = Inr v \<and> data_only v"
  using getNestedValue_loop_data [OF root_data_only] by (fastforce simp: getNestedValue_def)

text \<open>The identity given to the synthetic root does not matter.\<close>

lemma root_identity_unobserved:
  "getNestedValue rt (JObj r ps) path = getNestedValue rt (JObj r' ps) path"
proof -
  obtain part parts where "split_dot path = part # parts"
    using split_dot_nonempty by (cases "split_dot path") auto
  then show ?thesis by (simp add: getNestedValue_def)
qed

lemma loop_from_dead_end:
  "v = JUndefined \<or> v = JNull \<or> typeof v \<noteq> ''object'' \<Longrightarrow> parts \<noteq> [] \<Longrightarrow>
   getNestedValue_loop rt v parts = Inr JUndefined"
  by (cases parts) auto

lemma loop_append:
  "getNestedValue_loop rt current pre = Inr v \<Longrightarrow>
   getNestedValue_loop rt current (pre @ rest) = getNestedValue_loop rt v rest"
proof (induction pre arbitrary: current)
  case Nil
  then show ?case by simp
next
  case (Cons part pre)
  show ?case
  proof (cases "current = JNull \<or> current = JUndefined \<or> typeof current \<noteq> ''object''")
    case True
    with Cons.prems have "v = JUndefined" by (auto split: if_splits)
    moreover have "getNestedValue_loop rt JUndefined rest = Inr JUndefined"
      by (cases rest) auto
    ultimately show ?thesis using True by auto
  next
    case False
    show ?thesis
    proof (cases "getProp rt current part")
      case (Inl e)
      with False Cons.prems show ?thesis by auto
    next
      case (Inr x)
      with False Cons.prems have "getNestedValue_loop rt x pre = Inr v" by auto
      from Cons.IH [OF this] Inr False show ?thesis by auto
    qed
  qed
qed

lemma strict_eq_undefined: "strict_eq JUndefined e = (e = JUndefined)"
  by (auto simp: strict_eq_def same_value_zero_def)



lemma contains_case_ordinary:
  "\<not> (\<exists>r. actual = JExotic r \<and> exoticIsArray rt r) \<Longrightarrow>
   \<exists>b. contains_case rt actual expected = Inr b"
  by (cases actual; cases expected) (auto simp: contains_case_def)

lemma contains_case_data: "data_only actual \<Longrightarrow> \<exists>b. contains_case rt actual expected = Inr b"
  by (rule contains_case_ordinary) auto

lemma operator_switch_returns:
  "op \<noteq> ''contains'' \<or> (\<exists>b. contains_case rt actual expected = Inr b) \<Longrightarrow>
   \<exists>b out. operator_switch rt op actual expected = (Inr b, out)"
  by (auto simp: operator_switch_def)

lemma evaluateCondition_returns:
  assumes "getNestedValue rt (root_object context) (field condition) = Inr actual"
    and "operator condition \<noteq> ''contains'' \<or> \<not> (\<exists>r. actual = JExotic r \<and> exoticIsArray rt r)"
  shows "\<exists>b out. evaluateCondition rt condition context = (Inr b, out)"
proof -
  have "operator condition \<noteq> ''contains''
        \<or> (\<exists>b. contains_case rt actual (expectedValue condition) = Inr b)"
    using assms(2) contains_case_ordinary [of actual rt "expectedValue condition"] by blast
  from operator_switch_returns [OF this] assms(1) show ?thesis
    by (simp add: evaluateCondition_def)
qed

lemma evaluateCondition_data:
  assumes "data_only (payload context)" and "runtime_data_only rt"
  shows "\<exists>b out. evaluateCondition rt condition context = (Inr b, out)"
proof -
  obtain actual where
    a: "getNestedValue rt (root_object context) (field condition) = Inr actual"
    and d: "data_only actual"
    using getNestedValue_data [OF assms] by blast
  from d have "\<not> (\<exists>r. actual = JExotic r \<and> exoticIsArray rt r)" by auto
  with a show ?thesis by (intro evaluateCondition_returns) auto
qed



lemma every_condition_true:
  "(fst (every_condition rt cs context) = Inr True)
     = (\<forall>c\<in>set cs. fst (evaluateCondition rt c context) = Inr True)"
proof (induction cs)
  case Nil
  show ?case by simp
next
  case (Cons c cs)
  obtain r out where o: "evaluateCondition rt c context = (r, out)"
    by (cases "evaluateCondition rt c context")
  show ?case
  proof (cases r)
    case (Inl e)
    with o show ?thesis by simp
  next
    case (Inr b)
    with o Cons.IH show ?thesis by (cases b) (auto split: prod.splits)
  qed
qed

lemma every_condition_fst:
  "(\<And>c. c \<in> set cs \<Longrightarrow> \<exists>b. fst (evaluateCondition rt c context) = Inr b) \<Longrightarrow>
   fst (every_condition rt cs context)
     = Inr (\<forall>c\<in>set cs. fst (evaluateCondition rt c context) = Inr True)"
proof (induction cs)
  case Nil
  show ?case by simp
next
  case (Cons c cs)
  then obtain b where b: "fst (evaluateCondition rt c context) = Inr b" by auto
  then obtain out where o: "evaluateCondition rt c context = (Inr b, out)"
    by (cases "evaluateCondition rt c context") auto
  have ih: "fst (every_condition rt cs context)
              = Inr (\<forall>c\<in>set cs. fst (evaluateCondition rt c context) = Inr True)"
    using Cons by auto
  show ?case using o ih by (auto split: prod.splits)
qed


section \<open>Properties of the condition evaluator\<close>




text \<open>
  C5. When a prefix of a dotted path resolves, against the root \<open>{ payload, context }\<close>,
  to \<open>undefined\<close> (a missing key), to \<open>null\<close> or to a value that is not an object,
  and segments remain, the whole path resolves to \<open>undefined\<close> and nothing is thrown.
  For an expected value other than \<open>undefined\<close>, \<open>eq\<close> on such a path is \<open>false\<close> and
  \<open>neq\<close> is \<open>true\<close>.
\<close>

theorem absent_path_resolution:
  assumes "getNestedValue rt (root_object context) prefix = Inr v"
    and "v = JUndefined \<or> v = JNull \<or> typeof v \<noteq> ''object''"
    and "field condition = prefix @ ''.'' @ rest"
  shows "getNestedValue rt (root_object context) (field condition) = Inr JUndefined
         \<and> (expectedValue condition \<noteq> JUndefined \<longrightarrow>
              (operator condition = ''eq'' \<longrightarrow>
                 evaluateCondition rt condition context = (Inr False, []))
            \<and> (operator condition = ''neq'' \<longrightarrow>
                 evaluateCondition rt condition context = (Inr True, [])))"
proof -
  have "split_dot (field condition) = split_dot prefix @ split_dot rest"
    using assms(3) by (simp add: split_dot_append)
  moreover have "getNestedValue_loop rt (root_object context) (split_dot prefix) = Inr v"
    using assms(1) by (simp add: getNestedValue_def)
  ultimately have "getNestedValue_loop rt (root_object context) (split_dot (field condition))
                   = getNestedValue_loop rt v (split_dot rest)"
    by (simp add: loop_append)
  also have "\<dots> = Inr JUndefined"
    using assms(2) split_dot_nonempty by (rule loop_from_dead_end)
  finally have r: "getNestedValue rt (root_object context) (field condition) = Inr JUndefined"
    by (simp add: getNestedValue_def)
  then show ?thesis
    by (simp add: evaluateCondition_def operator_switch_def strict_eq_undefined)
qed

theorem absent_path_resolution_witness:
  "getNestedValue example_runtime (root_object (example_context (JObj 20 [])))
     ''payload.nonexistent'' = Inr JUndefined
   \<and> evaluateCondition example_runtime
       \<lparr>field = ''payload.nonexistent.deep.path'', operator = ''eq'',
        expectedValue = JStr ''test''\<rparr>
       (example_context (JObj 20 [])) = (Inr False, [])
   \<and> evaluateCondition example_runtime
       \<lparr>field = ''payload.nonexistent.deep.path'', operator = ''neq'',
        expectedValue = JStr ''test''\<rparr>
       (example_context (JObj 20 [])) = (Inr True, [])"
proof -
  let ?ctx = "example_context (JObj 20 [])"
  have g: "getNestedValue example_runtime (root_object ?ctx) ''payload.nonexistent''
             = Inr JUndefined"
    by (simp add: getNestedValue_def root_object_def example_context_def example_runtime_def)
  have p: "''payload.nonexistent.deep.path'' = ''payload.nonexistent'' @ ''.'' @ ''deep.path''"
    by simp
  show ?thesis
    using g
      absent_path_resolution [of example_runtime ?ctx "''payload.nonexistent''" JUndefined
        "\<lparr>field = ''payload.nonexistent.deep.path'', operator = ''eq'',
          expectedValue = JStr ''test''\<rparr>" "''deep.path''"]
      absent_path_resolution [of example_runtime ?ctx "''payload.nonexistent''" JUndefined
        "\<lparr>field = ''payload.nonexistent.deep.path'', operator = ''neq'',
          expectedValue = JStr ''test''\<rparr>" "''deep.path''"]
    by simp
qed




text \<open>
  C7. \<open>evaluateConditions\<close> on the empty list is \<open>true\<close>, and on a non-empty list it is
  \<open>true\<close> exactly when \<open>evaluateCondition\<close> is \<open>true\<close> for every condition of the list;
  when no condition of the list throws, it returns that conjunction.
\<close>

theorem evaluateConditions_conjunction:
  "evaluateConditions rt [] context = (Inr True, [])
   \<and> (cs \<noteq> [] \<longrightarrow>
        (fst (evaluateConditions rt cs context) = Inr True)
          = (\<forall>c\<in>set cs. fst (evaluateCondition rt c context) = Inr True))
   \<and> (cs \<noteq> [] \<and> (\<forall>c\<in>set cs. \<exists>b. fst (evaluateCondition rt c context) = Inr b) \<longrightarrow>
        fst (evaluateConditions rt cs context)
          = Inr (\<forall>c\<in>set cs. fst (evaluateCondition rt c context) = Inr True))"
  using every_condition_true [of rt cs "context"] every_condition_fst [of cs rt "context"]
  by (auto simp: evaluateConditions_def)

theorem evaluateConditions_conjunction_witness:
  "[\<lparr>field = ''payload.status'', operator = ''eq'', expectedValue = JStr ''active''\<rparr>,
    \<lparr>field = ''payload.count'', operator = ''gte'', expectedValue = JNum (Finite 5)\<rparr>] \<noteq> []
   \<and> fst (evaluateCondition example_runtime
        \<lparr>field = ''payload.status'', operator = ''eq'', expectedValue = JStr ''active''\<rparr>
        (example_context
           (JObj 20 [(''status'', Inr (JStr ''active'')), (''count'', Inr (JNum (Finite 3)))])))
      = Inr True
   \<and> fst (evaluateCondition example_runtime
        \<lparr>field = ''payload.count'', operator = ''gte'', expectedValue = JNum (Finite 5)\<rparr>
        (example_context
           (JObj 20 [(''status'', Inr (JStr ''active'')), (''count'', Inr (JNum (Finite 3)))])))
      = Inr False
   \<and> fst (evaluateConditions example_runtime
        [\<lparr>field = ''payload.status'', operator = ''eq'', expectedValue = JStr ''active''\<rparr>,
         \<lparr>field = ''payload.count'', operator = ''gte'', expectedValue = JNum (Finite 5)\<rparr>]
        (example_context
           (JObj 20 [(''status'', Inr (JStr ''active'')), (''count'', Inr (JNum (Finite 3)))])))
      = Inr False"
proof -
  let ?ctx = "example_context
           (JObj 20 [(''status'', Inr (JStr ''active'')), (''count'', Inr (JNum (Finite 3)))])"
  let ?c1 = "\<lparr>field = ''payload.status'', operator = ''eq'', expectedValue = JStr ''active''\<rparr>"
  let ?c2 = "\<lparr>field = ''payload.count'', operator = ''gte'', expectedValue = JNum (Finite 5)\<rparr>"
  have c1: "fst (evaluateCondition example_runtime ?c1 ?ctx) = Inr True"
    by (simp add: getNestedValue_def root_object_def example_context_def example_runtime_def
        evaluateCondition_def operator_switch_def strict_eq_def same_value_zero_def)
  have c2: "fst (evaluateCondition example_runtime ?c2 ?ctx) = Inr False"
    by (simp add: getNestedValue_def root_object_def example_context_def example_runtime_def
        evaluateCondition_def operator_switch_def js_ge_def num_le_def num_eq_def)
  have "fst (evaluateConditions example_runtime [?c1, ?c2] ?ctx) = Inr False"
    using evaluateConditions_conjunction [of example_runtime ?ctx "[?c1, ?c2]"] c1 c2 by auto
  with c1 c2 show ?thesis by simp
qed

section \<open>Properties of the action executor\<close>

text \<open>
  C8. A \<open>START_TIMER\<close> action whose \<open>params\<close> carry no \<open>activityId\<close> yields the failed
  result with error \<open>activityId gerekli\<close>, returned as a value, and leaves the world as it
  was: neither the import of the timer store nor \<open>startTimer\<close> is called, whatever the
  platform.
\<close>

theorem start_timer_requires_activityId:
  assumes "type action = ''START_TIMER''"
    and "map_of (params action) ''activityId'' = None"
  shows "executeAction pf action context w
           = (Inr \<lparr>actionType = ''START_TIMER'', success = False,
                   error = Some ''activityId gerekli'', data = None\<rparr>, w)"
  using assms by (simp add: executeAction_def executeStartTimer_def param_def failed_def)

theorem start_timer_requires_activityId_witness:
  "type \<lparr>type = ''START_TIMER'', params = []\<rparr> = ''START_TIMER''
   \<and> map_of (params \<lparr>type = ''START_TIMER'', params = []\<rparr>) ''activityId'' = None
   \<and> executeAction example_platform \<lparr>type = ''START_TIMER'', params = []\<rparr>
        (example_context (JObj 20 [])) example_world
      = (Inr \<lparr>actionType = ''START_TIMER'', success = False,
              error = Some ''activityId gerekli'', data = None\<rparr>, example_world)"
  using start_timer_requires_activityId
    [of "\<lparr>type = ''START_TIMER'', params = []\<rparr>" example_platform
        "example_context (JObj 20 [])" example_world]
  by simp

text \<open>
  C9, as amended. A \<open>TRIGGER_BREAK\<close> action always succeeds. The duration it reports is the
  \<open>duration\<close> parameter when that is a number other than \<open>0\<close> and \<open>NaN\<close>, and 300 seconds
  when the parameter is absent, \<open>0\<close> or \<open>NaN\<close>; the long-break flag is the \<open>isLongBreak\<close>
  parameter when that is a boolean, and \<open>false\<close> when it is absent.
\<close>

theorem trigger_break_result:
  assumes "type action = ''TRIGGER_BREAK''"
  shows "\<exists>d l w'.
           executeAction pf action context w
             = (Inr \<lparr>actionType = ''TRIGGER_BREAK'', success = True, error = None,
                     data = Some [(''duration'', d), (''isLongBreak'', l)]\<rparr>, w')
           \<and> (\<forall>n. map_of (params action) ''duration'' = Some (JNum n) \<and> n \<noteq> NaN \<and> n \<noteq> Finite 0
                  \<longrightarrow> d = JNum n)
           \<and> (map_of (params action) ''duration'' = None
                \<or> map_of (params action) ''duration'' = Some (JNum (Finite 0))
                \<or> map_of (params action) ''duration'' = Some (JNum NaN)
                  \<longrightarrow> d = JNum (Finite 300))
           \<and> (\<forall>b. map_of (params action) ''isLongBreak'' = Some (JBool b) \<longrightarrow> l = JBool b)
           \<and> (map_of (params action) ''isLongBreak'' = None \<longrightarrow> l = JBool False)"
proof -
  let ?d = "js_or (param (params action) ''duration'') (JNum (Finite 300))"
  let ?l = "js_or (param (params action) ''isLongBreak'') (JBool False)"
  have "executeAction pf action context w
          = (Inr \<lparr>actionType = ''TRIGGER_BREAK'', success = True, error = None,
                  data = Some [(''duration'', ?d), (''isLongBreak'', ?l)]\<rparr>,
             emit (Console (Log_triggering_break ?d ?l)) w)"
    using assms by (simp add: executeAction_def executeTriggerBreak_def Let_def)
  moreover have "\<forall>n. map_of (params action) ''duration'' = Some (JNum n) \<and> n \<noteq> NaN \<and> n \<noteq> Finite 0
                  \<longrightarrow> ?d = JNum n"
    by (simp add: param_def js_or_def)
  moreover have "map_of (params action) ''duration'' = None
                \<or> map_of (params action) ''duration'' = Some (JNum (Finite 0))
                \<or> map_of (params action) ''duration'' = Some (JNum NaN)
                  \<longrightarrow> ?d = JNum (Finite 300)"
    by (auto simp: param_def js_or_def)
  moreover have "\<forall>b. map_of (params action) ''isLongBreak'' = Some (JBool b) \<longrightarrow> ?l = JBool b"
    by (simp add: param_def js_or_def)
  moreover have "map_of (params action) ''isLongBreak'' = None \<longrightarrow> ?l = JBool False"
    by (simp add: param_def js_or_def)
  ultimately show ?thesis
    apply -
    apply (rule exI [of _ ?d])
    apply (rule exI [of _ ?l])
    apply (rule exI [of _ "emit (Console (Log_triggering_break ?d ?l)) w"])
    by blast
qed

theorem trigger_break_result_witness:
  "type \<lparr>type = ''TRIGGER_BREAK'', params = [(''duration'', JNum (Finite 900)), (''isLongBreak'', JBool True)]\<rparr>
     = ''TRIGGER_BREAK''
   \<and> fst (executeAction example_platform
        \<lparr>type = ''TRIGGER_BREAK'', params = [(''duration'', JNum (Finite 900)), (''isLongBreak'', JBool True)]\<rparr>
        (example_context (JObj 20 [])) example_world)
      = Inr \<lparr>actionType = ''TRIGGER_BREAK'', success = True, error = None,
              data = Some [(''duration'', JNum (Finite 900)), (''isLongBreak'', JBool True)]\<rparr>"
  using trigger_break_result
    [of "\<lparr>type = ''TRIGGER_BREAK'', params = [(''duration'', JNum (Finite 900)), (''isLongBreak'', JBool True)]\<rparr>"
        example_platform "example_context (JObj 20 [])" example_world]
  by auto

text \<open>A duration of \<open>0\<close> is reported as 300 seconds.\<close>

theorem trigger_break_zero_duration_counterexample:
  "map_of (params \<lparr>type = ''TRIGGER_BREAK'', params = [(''duration'', JNum (Finite 0))]\<rparr>) ''duration''
     = Some (JNum (Finite 0))
   \<and> fst (executeAction example_platform
        \<lparr>type = ''TRIGGER_BREAK'', params = [(''duration'', JNum (Finite 0))]\<rparr>
        (example_context (JObj 20 [])) example_world)
      = Inr \<lparr>actionType = ''TRIGGER_BREAK'', success = True, error = None,
              data = Some [(''duration'', JNum (Finite 300)), (''isLongBreak'', JBool False)]\<rparr>"
  by (simp add: executeAction_def executeTriggerBreak_def param_def js_or_def Let_def)

subsection \<open>The sequence of actions\<close>

lemma executeActions_loop_acc:
  "executeActions_loop pf acts context acc w
     = (case executeActions_loop pf acts context [] w of
          (Inl e, w') \<Rightarrow> (Inl e, w')
        | (Inr rs, w') \<Rightarrow> (Inr (acc @ rs), w'))"
proof (induction acts arbitrary: acc w)
  case Nil
  show ?case by simp
next
  case (Cons a rest)
  obtain x w1 where x: "executeAction pf a context w = (x, w1)"
    by (cases "executeAction pf a context w")
  show ?case
  proof (cases x)
    case (Inl e)
    with x show ?thesis by simp
  next
    case (Inr r)
    show ?thesis
    proof (cases "success r")
      case False
      with x Inr show ?thesis by simp
    next
      case True
      have l: "executeActions_loop pf (a # rest) context acc w
                 = executeActions_loop pf rest context (acc @ [r]) w1"
        using x Inr True by simp
      have n: "executeActions_loop pf (a # rest) context [] w
                 = executeActions_loop pf rest context [r] w1"
        using x Inr True by simp
      show ?thesis
        unfolding l n
        by (subst Cons.IH, subst (2) Cons.IH) (simp split: prod.splits sum.splits)
    qed
  qed
qed

lemma executeActions_Nil: "executeActions pf [] context w = (Inr [], w)"
  by (simp add: executeActions_def)

lemma executeActions_Cons_throw:
  "executeAction pf a context w = (Inl e, w1) \<Longrightarrow>
   executeActions pf (a # rest) context w = (Inl e, w1)"
  by (simp add: executeActions_def)

lemma executeActions_Cons_failure:
  "executeAction pf a context w = (Inr r, w1) \<Longrightarrow> \<not> success r \<Longrightarrow>
   executeActions pf (a # rest) context w
     = (Inr [r], emit (Console (Warn_action_failed r)) w1)"
  by (simp add: executeActions_def)

lemma executeActions_Cons_success:
  "executeAction pf a context w = (Inr r, w1) \<Longrightarrow> success r \<Longrightarrow>
   executeActions pf (a # rest) context w
     = (case executeActions pf rest context w1 of
          (Inl e, w') \<Rightarrow> (Inl e, w')
        | (Inr rs, w') \<Rightarrow> (Inr (r # rs), w'))"
  using executeActions_loop_acc [of pf rest "context" "[r]" w1]
  by (simp add: executeActions_def split: prod.splits sum.splits)

lemma executeActions_ConsE:
  assumes "executeActions pf (a # rest) context w = (Inr rs, w')"
  obtains (failure) r w1 where
      "executeAction pf a context w = (Inr r, w1)" and "\<not> success r" and "rs = [r]"
      and "w' = emit (Console (Warn_action_failed r)) w1"
  | (success) r w1 rs' where
      "executeAction pf a context w = (Inr r, w1)" and "success r" and "rs = r # rs'"
      and "executeActions pf rest context w1 = (Inr rs', w')"
proof -
  obtain x w1 where x: "executeAction pf a context w = (x, w1)"
    by (cases "executeAction pf a context w")
  show thesis
  proof (cases x)
    case (Inl e)
    with x assms show thesis by (simp add: executeActions_Cons_throw)
  next
    case (Inr r)
    show thesis
    proof (cases "success r")
      case False
      with x Inr assms failure show thesis by (simp add: executeActions_Cons_failure)
    next
      case True
      obtain y w2 where y: "executeActions pf rest context w1 = (y, w2)"
        by (cases "executeActions pf rest context w1")
      from x Inr True assms y show thesis
        by (cases y) (auto simp: executeActions_Cons_success intro: success)
    qed
  qed
qed

lemma world_after_Nil: "world_after pf [] context w = w"
  by (simp add: world_after_def)

lemma world_after_Cons:
  "world_after pf (a # rest) context w
     = world_after pf rest context (snd (executeAction pf a context w))"
  by (simp add: world_after_def)

lemma results_length:
  "executeActions pf acts context w = (Inr rs, w') \<Longrightarrow> length rs \<le> length acts"
proof (induction acts arbitrary: w rs)
  case Nil
  then show ?case by (simp add: executeActions_Nil)
next
  case (Cons a rest)
  from Cons.prems show ?case
  proof (cases rule: executeActions_ConsE)
    case (failure r w1)
    then show ?thesis by simp
  next
    case (success r w1 rs')
    with Cons.IH [of w1 rs'] show ?thesis by simp
  qed
qed

lemma results_in_order:
  "executeActions pf acts context w = (Inr rs, w') \<Longrightarrow> i < length rs \<Longrightarrow>
   fst (executeAction pf (acts ! i) context (world_after pf (take i acts) context w))
     = Inr (rs ! i)"
proof (induction acts arbitrary: w rs i)
  case Nil
  then show ?case by (simp add: executeActions_Nil)
next
  case (Cons a rest)
  from Cons.prems(1) show ?case
  proof (cases rule: executeActions_ConsE)
    case (failure r w1)
    with Cons.prems(2) show ?thesis by (simp add: world_after_Nil)
  next
    case (success r w1 rs')
    show ?thesis
    proof (cases i)
      case 0
      with success show ?thesis by (simp add: world_after_Nil)
    next
      case (Suc j)
      with Cons.prems(2) success have "j < length rs'" by simp
      from Cons.IH [OF success(4) this] Suc success show ?thesis
        by (simp add: world_after_Cons)
    qed
  qed
qed

lemma results_successes_before_last:
  "executeActions pf acts context w = (Inr rs, w') \<Longrightarrow> Suc i < length rs \<Longrightarrow>
   success (rs ! i)"
proof (induction acts arbitrary: w rs i)
  case Nil
  then show ?case by (simp add: executeActions_Nil)
next
  case (Cons a rest)
  from Cons.prems(1) show ?case
  proof (cases rule: executeActions_ConsE)
    case (failure r w1)
    with Cons.prems(2) show ?thesis by simp
  next
    case (success r w1 rs')
    show ?thesis
    proof (cases i)
      case 0
      with success show ?thesis by simp
    next
      case (Suc j)
      with Cons.prems(2) success have "Suc j < length rs'" by simp
      from Cons.IH [OF success(4) this] Suc success show ?thesis by simp
    qed
  qed
qed

lemma results_cut_short:
  "executeActions pf acts context w = (Inr rs, w') \<Longrightarrow> length rs < length acts \<Longrightarrow>
   rs \<noteq> [] \<and> \<not> success (last rs)"
proof (induction acts arbitrary: w rs)
  case Nil
  then show ?case by simp
next
  case (Cons a rest)
  from Cons.prems(1) show ?case
  proof (cases rule: executeActions_ConsE)
    case (failure r w1)
    then show ?thesis by simp
  next
    case (success r w1 rs')
    with Cons.prems(2) have "length rs' < length rest" by simp
    from Cons.IH [OF success(4) this] success show ?thesis by simp
  qed
qed

lemma results_final_world:
  "executeActions pf acts context w = (Inr rs, w') \<Longrightarrow>
   w' = (if rs \<noteq> [] \<and> \<not> success (last rs)
         then emit (Console (Warn_action_failed (last rs)))
                (world_after pf (take (length rs) acts) context w)
         else world_after pf (take (length rs) acts) context w)"
proof (induction acts arbitrary: w rs)
  case Nil
  then show ?case by (simp add: executeActions_Nil world_after_Nil)
next
  case (Cons a rest)
  from Cons.prems show ?case
  proof (cases rule: executeActions_ConsE)
    case (failure r w1)
    then show ?thesis by (simp add: world_after_Cons world_after_Nil)
  next
    case (success r w1 rs')
    from Cons.IH [OF success(4)] success show ?thesis
      by (cases "rs' = []") (simp_all add: world_after_Cons world_after_Nil)
  qed
qed

lemma results_rest_ignored:
  "executeActions pf acts context w = (Inr rs, w') \<Longrightarrow> rs \<noteq> [] \<Longrightarrow>
   \<not> success (last rs) \<Longrightarrow>
   executeActions pf (take (length rs) acts @ others) context w = (Inr rs, w')"
proof (induction acts arbitrary: w rs)
  case Nil
  then show ?case by (simp add: executeActions_Nil)
next
  case (Cons a rest)
  from Cons.prems(1) show ?case
  proof (cases rule: executeActions_ConsE)
    case (failure r w1)
    then show ?thesis by (simp add: executeActions_Cons_failure)
  next
    case (success r w1 rs')
    with Cons.prems(2,3) have ne: "rs' \<noteq> []" and f: "\<not> success (last rs')"
      by (auto split: if_splits)
    from Cons.IH [OF success(4) ne f]
    have "executeActions pf (take (length rs') rest @ others) context w1 = (Inr rs', w')" .
    with success show ?thesis
      by (simp add: executeActions_Cons_success)
  qed
qed

lemma throw_comes_from_action:
  "executeActions pf acts context w = (Inl e, w') \<Longrightarrow>
   \<exists>i<length acts.
      executeAction pf (acts ! i) context (world_after pf (take i acts) context w) = (Inl e, w')"
proof (induction acts arbitrary: w)
  case Nil
  then show ?case by (simp add: executeActions_Nil)
next
  case (Cons a rest)
  obtain x w1 where x: "executeAction pf a context w = (x, w1)"
    by (cases "executeAction pf a context w")
  show ?case
  proof (cases x)
    case (Inl e')
    with x Cons.prems have "executeAction pf a context w = (Inl e, w')"
      by (simp add: executeActions_Cons_throw)
    then have "executeAction pf ((a # rest) ! 0) context
                 (world_after pf (take 0 (a # rest)) context w) = (Inl e, w')"
      by (simp add: world_after_Nil)
    then show ?thesis by blast
  next
    case (Inr r)
    show ?thesis
    proof (cases "success r")
      case False
      with x Inr Cons.prems show ?thesis by (simp add: executeActions_Cons_failure)
    next
      case True
      with x Inr Cons.prems have "executeActions pf rest context w1 = (Inl e, w')"
        by (auto simp: executeActions_Cons_success split: prod.splits sum.splits)
      from Cons.IH [OF this] obtain i where
        i: "i < length rest"
        and t: "executeAction pf (rest ! i) context (world_after pf (take i rest) context w1)
                  = (Inl e, w')"
        by blast
      from t x have "executeAction pf ((a # rest) ! Suc i) context
                 (world_after pf (take (Suc i) (a # rest)) context w) = (Inl e, w')"
        by (simp add: world_after_Cons)
      with i show ?thesis by (intro exI [of _ "Suc i"]) simp
    qed
  qed
qed

text \<open>
  C1. \<open>executeActions\<close> runs the actions in list order and stops at the first failure.
  When it returns, the result list is no longer than the action list; its \<open>i\<close>-th entry is
  the result that \<open>executeAction\<close> gives for the \<open>i\<close>-th action in the world left by
  executing the actions before it, one after the other; every entry but the last is a
  success; the list is shorter than the action list only when its last entry is a failure
  (so without a failure there is one result for each action); the final world is the one
  left by the executed actions, with the warning for the failure if there is one; and
  after a failure the actions that follow are never invoked: whatever stands in their
  place, the results and the world are the same. When it throws, it throws what the
  execution of one of the actions threw, in the world left by the actions before it.
\<close>

theorem executeActions_fail_fast:
  "(\<forall>rs w'. executeActions pf acts context w = (Inr rs, w') \<longrightarrow>
      length rs \<le> length acts
      \<and> (\<forall>i < length rs.
            fst (executeAction pf (acts ! i) context
                   (world_after pf (take i acts) context w)) = Inr (rs ! i))
      \<and> (\<forall>i. Suc i < length rs \<longrightarrow> success (rs ! i))
      \<and> (length rs < length acts \<longrightarrow> rs \<noteq> [] \<and> \<not> success (last rs))
      \<and> w' = (if rs \<noteq> [] \<and> \<not> success (last rs)
               then emit (Console (Warn_action_failed (last rs)))
                      (world_after pf (take (length rs) acts) context w)
               else world_after pf (take (length rs) acts) context w)
      \<and> (rs \<noteq> [] \<and> \<not> success (last rs) \<longrightarrow>
            (\<forall>others.
               executeActions pf (take (length rs) acts @ others) context w = (Inr rs, w'))))
   \<and> (\<forall>e w'. executeActions pf acts context w = (Inl e, w') \<longrightarrow>
        (\<exists>i < length acts.
           executeAction pf (acts ! i) context (world_after pf (take i acts) context w)
             = (Inl e, w')))"
proof -
  have a: "length rs \<le> length acts
      \<and> (\<forall>i < length rs.
            fst (executeAction pf (acts ! i) context
                   (world_after pf (take i acts) context w)) = Inr (rs ! i))
      \<and> (\<forall>i. Suc i < length rs \<longrightarrow> success (rs ! i))
      \<and> (length rs < length acts \<longrightarrow> rs \<noteq> [] \<and> \<not> success (last rs))
      \<and> w' = (if rs \<noteq> [] \<and> \<not> success (last rs)
               then emit (Console (Warn_action_failed (last rs)))
                      (world_after pf (take (length rs) acts) context w)
               else world_after pf (take (length rs) acts) context w)
      \<and> (rs \<noteq> [] \<and> \<not> success (last rs) \<longrightarrow>
            (\<forall>others.
               executeActions pf (take (length rs) acts @ others) context w = (Inr rs, w')))"
    if r: "executeActions pf acts context w = (Inr rs, w')" for rs w'
    apply (intro conjI)
    subgoal using r by (rule results_length)
    subgoal using results_in_order [OF r] by blast
    subgoal using results_successes_before_last [OF r] by blast
    subgoal using results_cut_short [OF r] by blast
    subgoal using r by (rule results_final_world)
    subgoal using results_rest_ignored [OF r] by blast
    done
  have b: "\<exists>i < length acts.
           executeAction pf (acts ! i) context (world_after pf (take i acts) context w)
             = (Inl e, w')"
    if "executeActions pf acts context w = (Inl e, w')" for e w'
    using that by (rule throw_comes_from_action)
  from a b show ?thesis by blast
qed

theorem executeActions_fail_fast_witness:
  "fst (executeActions one_grant_platform [notify_action, notify_action, log_action ''c'']
          (example_context (JObj 20 [])) example_world)
     = Inr [\<lparr>actionType = ''NOTIFY'', success = True, error = None, data = None\<rparr>,
            \<lparr>actionType = ''NOTIFY'', success = False,
              error = Some ''Bildirim izni verilmedi'', data = None\<rparr>]
   \<and> fst (executeAction one_grant_platform
            ([notify_action, notify_action, log_action ''c''] ! 1)
            (example_context (JObj 20 []))
            (world_after one_grant_platform
               (take 1 [notify_action, notify_action, log_action ''c''])
               (example_context (JObj 20 [])) example_world))
     = Inr \<lparr>actionType = ''NOTIFY'', success = False,
            error = Some ''Bildirim izni verilmedi'', data = None\<rparr>
   \<and> fst (executeAction one_grant_platform notify_action (example_context (JObj 20 []))
            example_world)
     = Inr \<lparr>actionType = ''NOTIFY'', success = True, error = None, data = None\<rparr>
   \<and> fst (executeActions one_grant_platform
            (take 2 [notify_action, notify_action, log_action ''c''] @ [log_action ''z''])
            (example_context (JObj 20 [])) example_world)
     = Inr [\<lparr>actionType = ''NOTIFY'', success = True, error = None, data = None\<rparr>,
            \<lparr>actionType = ''NOTIFY'', success = False,
              error = Some ''Bildirim izni verilmedi'', data = None\<rparr>]"
proof -
  let ?acts = "[notify_action, notify_action, log_action ''c'']"
  let ?ctx = "example_context (JObj 20 [])"
  let ?ok = "\<lparr>actionType = ''NOTIFY'', success = True, error = None, data = None\<rparr>"
  let ?no = "\<lparr>actionType = ''NOTIFY'', success = False,
              error = Some ''Bildirim izni verilmedi'', data = None\<rparr>"
  have f: "fst (executeActions one_grant_platform ?acts ?ctx example_world) = Inr [?ok, ?no]"
    by (simp add: one_grant_platform_def example_defs executor_defs)
  then obtain w' where
    e: "executeActions one_grant_platform ?acts ?ctx example_world = (Inr [?ok, ?no], w')"
    by (cases "executeActions one_grant_platform ?acts ?ctx example_world") auto
  have i: "fst (executeAction one_grant_platform notify_action ?ctx example_world) = Inr ?ok"
    by (simp add: one_grant_platform_def example_defs executor_defs)
  from executeActions_fail_fast [of one_grant_platform ?acts ?ctx example_world] e
  have all: "(\<forall>i < length [?ok, ?no].
            fst (executeAction one_grant_platform (?acts ! i) ?ctx
                   (world_after one_grant_platform (take i ?acts) ?ctx example_world))
              = Inr ([?ok, ?no] ! i))
      \<and> ([?ok, ?no] \<noteq> [] \<and> \<not> success (last [?ok, ?no]) \<longrightarrow>
            (\<forall>others.
               executeActions one_grant_platform (take (length [?ok, ?no]) ?acts @ others)
                 ?ctx example_world = (Inr [?ok, ?no], w')))"
    by blast
  have "fst (executeAction one_grant_platform (?acts ! 1) ?ctx
            (world_after one_grant_platform (take 1 ?acts) ?ctx example_world))
       = Inr ([?ok, ?no] ! 1)"
    using all [THEN conjunct1, rule_format, of 1] by simp
  moreover have
    "executeActions one_grant_platform (take (length [?ok, ?no]) ?acts @ [log_action ''z''])
       ?ctx example_world = (Inr [?ok, ?no], w')"
    using all [THEN conjunct2] by simp
  ultimately show ?thesis using f i by simp
qed

section \<open>Properties of the rule engine\<close>

lemma first_failure_error:
  "find (\<lambda>x. \<not> success x) rs = None \<Longrightarrow> list_all success rs"
  by (induction rs) (auto split: if_splits)

lemma find_failure_not_all:
  "find (\<lambda>x. \<not> success x) rs = Some f \<Longrightarrow> \<not> list_all success rs"
  by (induction rs) (auto split: if_splits)

lemma evaluateConditions_data:
  assumes "data_only (payload context)" and "runtime_data_only rt"
  shows "\<exists>b out. evaluateConditions rt cs context = (Inr b, out)"
proof -
  have "\<exists>b. fst (evaluateCondition rt c context) = Inr b" for c
    using evaluateCondition_data [OF assms, of c] by auto
  then have "fst (every_condition rt cs context)
               = Inr (\<forall>c\<in>set cs. fst (evaluateCondition rt c context) = Inr True)"
    by (intro every_condition_fst) blast
  then show ?thesis
    by (cases "evaluateConditions rt cs context")
       (auto simp: evaluateConditions_def split: if_splits)
qed

text \<open>
  C2, as amended. When the evaluation of the conditions returns, \<open>evaluateAndExecuteRule\<close>
  gives a result for the rule with \<open>matched\<close> telling whether the conditions hold. When
  they do not hold no action is executed: the world only receives the evaluator's console
  output. When they hold and \<open>executeActions\<close> returns, \<open>actionsExecuted\<close> is \<open>true\<close>
  exactly when every result of \<open>executeActions\<close> is a success, and when an action failed
  the \<open>error\<close> field is the first failing action's error message if that message is not
  the empty string, and is left unset if it is. For a payload of data properties only the
  evaluation of the conditions does return.
\<close>

theorem evaluateAndExecuteRule_outcome:
  "(\<forall>b out. evaluateConditions rt (conditions rule) context = (Inr b, out) \<longrightarrow>
      (\<not> b \<longrightarrow>
         evaluateAndExecuteRule rt pf rule context w
           = (Inr (initial_result rule), console_output out w))
      \<and> (b \<longrightarrow>
           (\<forall>rs w2. executeActions pf (actions rule) context (console_output out w)
                      = (Inr rs, w2) \<longrightarrow>
              (\<exists>r w'.
                 evaluateAndExecuteRule rt pf rule context w = (Inr r, w')
                 \<and> ruleId r = rule_id rule \<and> ruleName r = rule_name rule
                 \<and> rule_trigger r = trigger rule
                 \<and> matched r
                 \<and> actionsExecuted r = (\<forall>x\<in>set rs. success x)
                 \<and> (\<forall>f. find (\<lambda>x. \<not> success x) rs = Some f \<longrightarrow>
                        rule_error r = (if error f = Some [] then None else error f))
                 \<and> (find (\<lambda>x. \<not> success x) rs = None \<longrightarrow> rule_error r = None)))))
   \<and> (data_only (payload context) \<and> runtime_data_only rt \<longrightarrow>
        (\<exists>b out. evaluateConditions rt (conditions rule) context = (Inr b, out)))"
proof -
  have no: "evaluateAndExecuteRule rt pf rule context w
              = (Inr (initial_result rule), console_output out w)"
    if "evaluateConditions rt (conditions rule) context = (Inr False, out)" for out
    using that
    by (simp add: evaluateAndExecuteRule_def rule_try_block_def initial_result_def)
  have yes: "\<exists>r w'.
                 evaluateAndExecuteRule rt pf rule context w = (Inr r, w')
                 \<and> ruleId r = rule_id rule \<and> ruleName r = rule_name rule
                 \<and> rule_trigger r = trigger rule
                 \<and> matched r
                 \<and> actionsExecuted r = (\<forall>x\<in>set rs. success x)
                 \<and> (\<forall>f. find (\<lambda>x. \<not> success x) rs = Some f \<longrightarrow>
                        rule_error r = (if error f = Some [] then None else error f))
                 \<and> (find (\<lambda>x. \<not> success x) rs = None \<longrightarrow> rule_error r = None)"
    if c: "evaluateConditions rt (conditions rule) context = (Inr True, out)"
      and x: "executeActions pf (actions rule) context (console_output out w) = (Inr rs, w2)"
    for out rs w2
  proof (cases "find (\<lambda>x. \<not> success x) rs")
    case None
    then have "list_all success rs" by (rule first_failure_error)
    then show ?thesis
      using c x None
      by (simp add: evaluateAndExecuteRule_def rule_try_block_def initial_result_def Let_def
          list_all_iff)
  next
    case (Some f)
    then have "\<not> list_all success rs" by (rule find_failure_not_all)
    then show ?thesis
      using c x Some
      by (cases "error f")
         (simp_all add: evaluateAndExecuteRule_def rule_try_block_def initial_result_def Let_def
          list_all_iff)
  qed
  have "(\<not> b \<longrightarrow>
         evaluateAndExecuteRule rt pf rule context w
           = (Inr (initial_result rule), console_output out w))
      \<and> (b \<longrightarrow>
           (\<forall>rs w2. executeActions pf (actions rule) context (console_output out w)
                      = (Inr rs, w2) \<longrightarrow>
              (\<exists>r w'.
                 evaluateAndExecuteRule rt pf rule context w = (Inr r, w')
                 \<and> ruleId r = rule_id rule \<and> ruleName r = rule_name rule
                 \<and> rule_trigger r = trigger rule
                 \<and> matched r
                 \<and> actionsExecuted r = (\<forall>x\<in>set rs. success x)
                 \<and> (\<forall>f. find (\<lambda>x. \<not> success x) rs = Some f \<longrightarrow>
                        rule_error r = (if error f = Some [] then None else error f))
                 \<and> (find (\<lambda>x. \<not> success x) rs = None \<longrightarrow> rule_error r = None))))"
    if e: "evaluateConditions rt (conditions rule) context = (Inr b, out)" for b out
  proof (cases b)
    case True
    with e have c: "evaluateConditions rt (conditions rule) context = (Inr True, out)" by simp
    from yes [OF c] True show ?thesis by simp
  next
    case False
    with e have "evaluateConditions rt (conditions rule) context = (Inr False, out)" by simp
    from no [OF this] False show ?thesis by simp
  qed
  moreover have "data_only (payload context) \<and> runtime_data_only rt \<longrightarrow>
        (\<exists>b out. evaluateConditions rt (conditions rule) context = (Inr b, out))"
    using evaluateConditions_data by blast
  ultimately show ?thesis by blast
qed

theorem evaluateAndExecuteRule_outcome_witness:
  "data_only (payload (example_context (JObj 20 []))) \<and> runtime_data_only example_runtime
   \<and> evaluateConditions example_runtime (conditions failing_rule) (example_context (JObj 20 []))
       = (Inr True, [])
   \<and> fst (executeActions example_platform (actions failing_rule)
            (example_context (JObj 20 [])) (console_output [] example_world))
       = Inr [\<lparr>actionType = ''START_TIMER'', success = False,
               error = Some ''activityId gerekli'', data = None\<rparr>]
   \<and> (\<exists>r w'. evaluateAndExecuteRule example_runtime example_platform failing_rule
                 (example_context (JObj 20 [])) example_world = (Inr r, w')
         \<and> matched r \<and> \<not> actionsExecuted r \<and> rule_error r = Some ''activityId gerekli'')
   \<and> evaluateConditions example_runtime
        [\<lparr>field = ''payload.session.durationSec'', operator = ''gte'',
          expectedValue = JNum (Finite 1800)\<rparr>]
        (example_context
           (JObj 20 [(''session'', Inr (JObj 21 [(''durationSec'', Inr (JNum (Finite 1000)))]))]))
       = (Inr False, [])
   \<and> evaluateAndExecuteRule example_runtime example_platform
        (succeeding_rule\<lparr>conditions :=
           [\<lparr>field = ''payload.session.durationSec'', operator = ''gte'',
             expectedValue = JNum (Finite 1800)\<rparr>]\<rparr>)
        (example_context
           (JObj 20 [(''session'', Inr (JObj 21 [(''durationSec'', Inr (JNum (Finite 1000)))]))]))
        example_world
       = (Inr \<lparr>ruleId = ''r2'', ruleName = ''second'', rule_trigger = ''POMODORO_COMPLETED'',
               matched = False, actionsExecuted = False, rule_error = None\<rparr>,
          example_world)"
proof -
  let ?ctx = "example_context (JObj 20 [])"
  let ?f = "\<lparr>actionType = ''START_TIMER'', success = False,
              error = Some ''activityId gerekli'', data = None\<rparr>"
  have d: "data_only (payload ?ctx)" by (simp add: example_context_def)
  have t: "runtime_data_only example_runtime"
    by (simp add: runtime_data_only_def table_data_only_def example_runtime_def reads_data_def)
  have c: "evaluateConditions example_runtime (conditions failing_rule) ?ctx = (Inr True, [])"
    by (simp add: evaluateConditions_def failing_rule_def)
  have x: "fst (executeActions example_platform (actions failing_rule) ?ctx
                  (console_output [] example_world)) = Inr [?f]"
    by (simp add: example_defs executor_defs console_output_def)
  then obtain w2 where
    x2: "executeActions example_platform (actions failing_rule) ?ctx
           (console_output [] example_world) = (Inr [?f], w2)"
    by (cases "executeActions example_platform (actions failing_rule) ?ctx
                 (console_output [] example_world)") auto
  from evaluateAndExecuteRule_outcome
         [of example_runtime failing_rule ?ctx example_platform example_world,
          THEN conjunct1, rule_format, OF c, THEN conjunct2, rule_format, OF _ x2]
  obtain r w' where
    r: "evaluateAndExecuteRule example_runtime example_platform failing_rule ?ctx example_world
          = (Inr r, w')"
    and m: "matched r"
    and a: "actionsExecuted r = (\<forall>x\<in>set [?f]. success x)"
    and g: "\<forall>f. find (\<lambda>x. \<not> success x) [?f] = Some f \<longrightarrow>
                rule_error r = (if error f = Some [] then None else error f)"
    by auto
  from g have "rule_error r = Some ''activityId gerekli''" by simp
  moreover from a have "\<not> actionsExecuted r" by simp
  ultimately have one: "\<exists>r w'. evaluateAndExecuteRule example_runtime example_platform
                 failing_rule ?ctx example_world = (Inr r, w')
         \<and> matched r \<and> \<not> actionsExecuted r \<and> rule_error r = Some ''activityId gerekli''"
    using r m by blast
  let ?low = "example_context
           (JObj 20 [(''session'', Inr (JObj 21 [(''durationSec'', Inr (JNum (Finite 1000)))]))])"
  let ?cond = "\<lparr>field = ''payload.session.durationSec'', operator = ''gte'',
             expectedValue = JNum (Finite 1800)\<rparr>"
  let ?rule = "succeeding_rule\<lparr>conditions := [?cond]\<rparr>"
  have c2: "evaluateConditions example_runtime [?cond] ?low = (Inr False, [])"
    by (simp add: evaluateConditions_def evaluateCondition_def getNestedValue_def
        root_object_def example_context_def example_runtime_def operator_switch_def
        js_ge_def num_le_def num_eq_def)
  then have c2': "evaluateConditions example_runtime (conditions ?rule) ?low = (Inr False, [])"
    by simp
  from evaluateAndExecuteRule_outcome
         [of example_runtime ?rule ?low example_platform example_world,
          THEN conjunct1, rule_format, OF c2', THEN conjunct1]
  have two: "evaluateAndExecuteRule example_runtime example_platform ?rule ?low example_world
       = (Inr \<lparr>ruleId = ''r2'', ruleName = ''second'', rule_trigger = ''POMODORO_COMPLETED'',
               matched = False, actionsExecuted = False, rule_error = None\<rparr>,
          example_world)"
    by (simp add: initial_result_def succeeding_rule_def console_output_def example_world_def)
  from d t c x one c2 two show ?thesis by blast
qed

text \<open>
  A timer store that rejects with the empty string makes the action fail with the empty
  message, and the rule's \<open>error\<close> stays unset.
\<close>

theorem empty_error_message_counterexample:
  "fst (executeActions empty_rejection_platform
          [\<lparr>type = ''START_TIMER'', params = [(''activityId'', JStr ''a1'')]\<rparr>]
          (example_context (JObj 20 [])) example_world)
     = Inr [\<lparr>actionType = ''START_TIMER'', success = False, error = Some [], data = None\<rparr>]
   \<and> fst (evaluateAndExecuteRule example_runtime empty_rejection_platform
        (succeeding_rule\<lparr>actions :=
           [\<lparr>type = ''START_TIMER'', params = [(''activityId'', JStr ''a1'')]\<rparr>]\<rparr>)
        (example_context (JObj 20 [])) example_world)
     = Inr \<lparr>ruleId = ''r2'', ruleName = ''second'', rule_trigger = ''POMODORO_COMPLETED'',
            matched = True, actionsExecuted = False, rule_error = None\<rparr>"
  by (simp add: empty_rejection_platform_def example_defs executor_defs engine_defs)

text \<open>
  C10. A rule whose conditions hold and whose list of actions is empty yields
  \<open>matched = true\<close>, \<open>actionsExecuted = true\<close> and no \<open>error\<close>, from
  \<open>evaluateAndExecuteRule\<close> and from \<open>testRule\<close>.
\<close>

theorem rule_without_actions:
  assumes "actions rule = []"
  shows "(fst (evaluateConditions rt (conditions rule) context) = Inr True \<longrightarrow>
            fst (evaluateAndExecuteRule rt pf rule context w)
              = Inr \<lparr>ruleId = rule_id rule, ruleName = rule_name rule,
                     rule_trigger = trigger rule, matched = True, actionsExecuted = True,
                     rule_error = None\<rparr>)
       \<and> (fst (evaluateConditions rt (conditions rule) (fst (buildContext this mockPayload w)))
            = Inr True \<longrightarrow>
            fst (testRule rt pf this rule mockPayload w)
              = Inr \<lparr>ruleId = rule_id rule, ruleName = rule_name rule,
                     rule_trigger = trigger rule, matched = True, actionsExecuted = True,
                     rule_error = None\<rparr>)"
proof -
  have one: "fst (evaluateAndExecuteRule rt pf rule c v)
              = Inr \<lparr>ruleId = rule_id rule, ruleName = rule_name rule,
                     rule_trigger = trigger rule, matched = True, actionsExecuted = True,
                     rule_error = None\<rparr>"
    if h: "fst (evaluateConditions rt (conditions rule) c) = Inr True" for c v
  proof -
    obtain out where "evaluateConditions rt (conditions rule) c = (Inr True, out)"
      by (cases "evaluateConditions rt (conditions rule) c") (use h in auto)
    then show ?thesis
      using assms
      by (simp add: evaluateAndExecuteRule_def rule_try_block_def initial_result_def Let_def
          executeActions_Nil)
  qed
  have "testRule rt pf this rule mockPayload w
          = evaluateAndExecuteRule rt pf rule (fst (buildContext this mockPayload w))
              (snd (buildContext this mockPayload w))"
    by (simp add: testRule_def case_prod_beta)
  then show ?thesis
    using one [of "context" w]
      one [of "fst (buildContext this mockPayload w)" "snd (buildContext this mockPayload w)"]
    by (intro conjI impI) simp_all
qed

theorem rule_without_actions_witness:
  "actions idle_rule = []
   \<and> fst (evaluateConditions example_runtime (conditions idle_rule)
            (example_context (JObj 20 []))) = Inr True
   \<and> fst (evaluateAndExecuteRule example_runtime example_platform idle_rule
            (example_context (JObj 20 [])) example_world)
      = Inr \<lparr>ruleId = ''r3'', ruleName = ''third'', rule_trigger = ''GOAL_REACHED'',
             matched = True, actionsExecuted = True, rule_error = None\<rparr>
   \<and> fst (testRule example_runtime example_platform example_engine idle_rule (JObj 20 [])
            example_world)
      = Inr \<lparr>ruleId = ''r3'', ruleName = ''third'', rule_trigger = ''GOAL_REACHED'',
             matched = True, actionsExecuted = True, rule_error = None\<rparr>"
proof -
  have a: "actions idle_rule = []" by (simp add: idle_rule_def)
  have c: "fst (evaluateConditions example_runtime (conditions idle_rule) c) = Inr True" for c
    by (simp add: evaluateConditions_def idle_rule_def)
  show ?thesis
    using a c
      rule_without_actions [OF a, of example_runtime "example_context (JObj 20 [])"
        example_platform example_world example_engine "JObj 20 []"]
    by (simp add: idle_rule_def)
qed

text \<open>
  C3 does not hold of the code. The handler of the \<open>try\<close> block in
  \<open>evaluateAndExecuteRule\<close> converts the caught value with \<open>String\<close>, and that conversion
  throws when the value has no primitive conversion. With a payload whose property \<open>x\<close>
  is a getter throwing such a value, and a cached rule with a condition on \<open>payload.x\<close>,
  the evaluation of the conditions throws the value, the conversion in the handler throws
  a \<open>TypeError\<close>, and \<open>testRule\<close> and \<open>handleEvent\<close> throw it to their caller, although
  two cached rules have the trigger of the event. When the getter throws an ordinary
  error instead, the handler records it in the first rule's \<open>error\<close> and the second rule
  is evaluated and executed.
\<close>

theorem unconvertible_error_escapes:
  "fst (evaluateConditions example_runtime (conditions watching_rule)
          (fst (buildContext watching_engine hostile_payload example_world)))
     = Inl (Unconvertible (Thrown ''TypeError: Cannot convert object to primitive value''))
   \<and> String_of (Unconvertible (Thrown ''TypeError: Cannot convert object to primitive value''))
     = Inl (Thrown ''TypeError: Cannot convert object to primitive value'')
   \<and> fst (testRule example_runtime example_platform watching_engine watching_rule
            hostile_payload example_world)
     = Inl (Thrown ''TypeError: Cannot convert object to primitive value'')
   \<and> filter (\<lambda>rule. trigger rule = ''POMODORO_COMPLETED'') (rulesCache watching_engine)
     = [watching_rule, succeeding_rule]
   \<and> fst (handleEvent example_runtime example_platform watching_engine ''POMODORO_COMPLETED''
            hostile_payload example_world)
     = Inl (Thrown ''TypeError: Cannot convert object to primitive value'')
   \<and> fst (handleEvent example_runtime example_platform watching_engine ''POMODORO_COMPLETED''
            (JObj 20 [(''x'', Inl (Thrown ''Error: sensor offline''))]) example_world)
     = Inr [\<lparr>ruleId = ''r4'', ruleName = ''watch'', rule_trigger = ''POMODORO_COMPLETED'',
              matched = False, actionsExecuted = False,
              rule_error = Some ''Error: sensor offline''\<rparr>,
            \<lparr>ruleId = ''r2'', ruleName = ''second'', rule_trigger = ''POMODORO_COMPLETED'',
              matched = True, actionsExecuted = True, rule_error = None\<rparr>]"
  by (simp add: watching_engine_def watching_rule_def hostile_payload_def
      unconvertible_value_def example_defs executor_defs engine_defs evaluateCondition_def
      getNestedValue_def root_object_def)

end
